theory Spec2Isabelle
  imports Complex_Main
begin

section \<open>JavaScript values\<close>

text \<open>
  The services pass untyped (\<^verbatim>\<open>any\<close>) values around: custom field values, entity
  snapshots, audit payloads. A number is a finite value, \<^verbatim>\<open>NaN\<close> or one of the two
  infinities; an object is the list of its own enumerable properties in insertion order,
  as \<^verbatim>\<open>Object.entries\<close> yields them. The property names that an object inherits
  from \<^verbatim>\<open>Object.prototype\<close> are modelled where the validation of custom fields looks
  a name up (\<open>js_in\<close>, \<open>pushError\<close>); everything else reads own properties.
\<close>

datatype jsnum = Finite real | NaN | PosInfinity | NegInfinity

datatype jsval =
    JUndefined
  | JNull
  | JBool bool
  | JNum jsnum
  | JStr string
  | JDate jsnum
  | JArr "jsval list"
  | JObj "(string \<times> jsval) list"

type_synonym jsobj = "(string \<times> jsval) list"

text \<open>\<^verbatim>\<open>typeof value\<close>.\<close>

fun typeof :: "jsval \<Rightarrow> string" where
  "typeof JUndefined = ''undefined''"
| "typeof JNull = ''object''"
| "typeof (JBool b) = ''boolean''"
| "typeof (JNum n) = ''number''"
| "typeof (JStr s) = ''string''"
| "typeof (JDate t) = ''object''"
| "typeof (JArr xs) = ''object''"
| "typeof (JObj ps) = ''object''"

text \<open>
  \<^verbatim>\<open>isNaN(value)\<close>. The validator evaluates it behind
  \<^verbatim>\<open>typeof value !== 'number' ||\<close>, so only on numbers; on every other value the
  result given here is never read.
\<close>

fun isNaN :: "jsval \<Rightarrow> bool" where
  "isNaN (JNum n) = (n = NaN)"
| "isNaN v = True"

text \<open>
  \<^verbatim>\<open>Object.keys(obj)\<close>, the test that a key is an own property, and \<^verbatim>\<open>obj[key]\<close> on
  the own properties (a missing key reads as undefined).
\<close>

definition Object_keys :: "(string \<times> 'v) list \<Rightarrow> string list" where
  "Object_keys obj = map fst obj"

definition has_key :: "string \<Rightarrow> (string \<times> 'v) list \<Rightarrow> bool" where
  "has_key k obj = (k \<in> set (Object_keys obj))"

definition get_prop :: "jsobj \<Rightarrow> string \<Rightarrow> jsval" where
  "get_prop obj k = (case map_of obj k of None \<Rightarrow> JUndefined | Some v \<Rightarrow> v)"

text \<open>
  The property names that every plain object inherits from \<^verbatim>\<open>Object.prototype\<close>
  (ECMAScript with its Annex B, as \<^verbatim>\<open>Object.getOwnPropertyNames(Object.prototype)\<close>
  lists them in Node). Read through an object that has no own property of that name,
  each of them is a function, or for \<^verbatim>\<open>__proto__\<close> the prototype itself: a truthy value
  that has no \<^verbatim>\<open>push\<close>.
\<close>

definition Object_prototype_names :: "string list" where
  "Object_prototype_names =
     [''constructor'', ''__defineGetter__'', ''__defineSetter__'', ''hasOwnProperty'',
      ''__lookupGetter__'', ''__lookupSetter__'', ''isPrototypeOf'', ''propertyIsEnumerable'',
      ''toString'', ''valueOf'', ''__proto__'', ''toLocaleString'']"

text \<open>\<^verbatim>\<open>key in obj\<close> on a plain object: an own or an inherited property.\<close>

definition js_in :: "string \<Rightarrow> (string \<times> 'v) list \<Rightarrow> bool" where
  "js_in k obj = (has_key k obj \<or> k \<in> set Object_prototype_names)"

text \<open>\<^verbatim>\<open>xs.join(sep)\<close> on an array of strings.\<close>

fun join :: "string \<Rightarrow> string list \<Rightarrow> string" where
  "join sep [] = []"
| "join sep [x] = x"
| "join sep (x # y # ys) = x @ sep @ join sep (y # ys)"

text \<open>\<^verbatim>\<open>s.includes(t)\<close> on strings: \<open>t\<close> occurs in \<open>s\<close> as a contiguous substring.\<close>

fun starts_with :: "string \<Rightarrow> string \<Rightarrow> bool" where
  "starts_with s [] = True"
| "starts_with [] (c # t) = False"
| "starts_with (d # s) (c # t) = (d = c \<and> starts_with s t)"

fun str_includes :: "string \<Rightarrow> string \<Rightarrow> bool" where
  "str_includes [] t = (t = [])"
| "str_includes (c # s) t = (starts_with (c # s) t \<or> str_includes s t)"

text \<open>The apostrophe that the message templates put around a label.\<close>

definition apos :: string where
  "apos = [CHR 0x27]"

section \<open>Error classes (errors.ts)\<close>

text \<open>
  A failure reported by the store (the \<^verbatim>\<open>pg\<close> driver) carries an optional
  SQLSTATE code, detail text, constraint name and column name.
\<close>

record pg_error =
  code :: "string option"
  detail :: "string option"
  constraint_name :: "string option"
  column_name :: "string option"

text \<open>
  Everything the modelled code throws or catches. \<open>PgError\<close> is a raw store failure,
  \<open>ZodError\<close> the failure of the external schema engine and \<open>TypeError\<close> the error of the
  JavaScript runtime, with its message; the other four are the classes of errors.ts with
  their constructor arguments.
\<close>

datatype error =
    ValidationError string "(string \<times> string list) list"
  | NotFoundError string string
  | DatabaseError string error
  | ConstraintViolationError string string
  | PgError pg_error
  | ZodError string
  | TypeError string

section \<open>Custom field validation (validation/custom-fields.ts)\<close>

text \<open>
  \<^verbatim>\<open>CustomFieldType\<close> is a union of five string literals. A value read from the store is
  not checked against it, so \<open>OtherType\<close> stands for any other string; it reaches the
  \<^verbatim>\<open>default\<close> branch of the validator's switch.
\<close>

datatype CustomFieldType = Text | Number | Date | Enum | Boolean | OtherType string

record CustomFieldDefinition =
  def_id :: string
  name :: string
  label :: string
  entityType :: string
  fieldType :: CustomFieldType
  enumValues :: "string list option"
  required :: bool
  createdAt :: jsnum
  createdBy :: string

text \<open>The result \<^verbatim>\<open>{ valid: boolean; error?: string }\<close>.\<close>

datatype validation = Valid | Invalid string

text \<open>
  The \<^verbatim>\<open>switch (definition.fieldType)\<close> of \<^verbatim>\<open>validateCustomFieldValue\<close>: the
  check that depends on the kind of the field. \<open>newDate v\<close> is the time value of
  \<^verbatim>\<open>new Date(v)\<close>, that is \<^verbatim>\<open>new Date(v).getTime()\<close>, as the JavaScript runtime
  computes it; it is a parameter, since parsing dates is the runtime's work.
  \<^verbatim>\<open>enumValues.includes(value)\<close> compares with strict equality against an array
  of strings, so only a string can be a member.
\<close>

definition kindCheck :: "(jsval \<Rightarrow> jsnum) \<Rightarrow> CustomFieldDefinition \<Rightarrow> jsval \<Rightarrow> validation" where
  "kindCheck newDate defn v =
     (case fieldType defn of
        Text \<Rightarrow>
          if typeof v \<noteq> ''string''
          then Invalid (''Field '' @ apos @ label defn @ apos @ '' must be a string'')
          else Valid
      | Number \<Rightarrow>
          if typeof v \<noteq> ''number'' \<or> isNaN v
          then Invalid (''Field '' @ apos @ label defn @ apos @ '' must be a number'')
          else Valid
      | Date \<Rightarrow>
          if isNaN (JNum (newDate v))
          then Invalid (''Field '' @ apos @ label defn @ apos @ '' must be a valid date'')
          else Valid
      | Boolean \<Rightarrow>
          if typeof v \<noteq> ''boolean''
          then Invalid (''Field '' @ apos @ label defn @ apos @ '' must be a boolean'')
          else Valid
      | Enum \<Rightarrow>
          if (case enumValues defn of
                None \<Rightarrow> True
              | Some vs \<Rightarrow> \<not> (case v of JStr s \<Rightarrow> s \<in> set vs | _ \<Rightarrow> False))
          then Invalid (''Field '' @ apos @ label defn @ apos @ '' must be one of: '' @
                  (case enumValues defn of None \<Rightarrow> ''undefined'' | Some vs \<Rightarrow> join '', '' vs))
          else Valid
      | OtherType t \<Rightarrow> Invalid (''Unknown field type: '' @ t))"

definition validateCustomFieldValue ::
  "(jsval \<Rightarrow> jsnum) \<Rightarrow> CustomFieldDefinition \<Rightarrow> jsval \<Rightarrow> validation" where
  "validateCustomFieldValue newDate defn v =
     (if v = JNull \<or> v = JUndefined then
        (if required defn
         then Invalid (''Field '' @ apos @ label defn @ apos @ '' is required'')
         else Valid)
      else kindCheck newDate defn v)"

text \<open>
  \<^verbatim>\<open>if (!errors[k]) errors[k] = []; errors[k].push(msg)\<close> on the
  \<^verbatim>\<open>Record<string, string[]>\<close> of collected errors, which starts as \<^verbatim>\<open>{}\<close>. For a
  key that is no inherited name, the array under the key is created when missing and the
  message appended (\<open>appendError\<close>). For an inherited name \<^verbatim>\<open>errors[k]\<close> is the
  inherited value, which is truthy, so no array is created, and calling its \<^verbatim>\<open>push\<close>
  throws a \<^verbatim>\<open>TypeError\<close> (with the message that V8 gives in the first loop; the
  second loop never gets there with such a name, which its \<^verbatim>\<open>in\<close> test excludes).
\<close>

fun appendError :: "(string \<times> string list) list \<Rightarrow> string \<Rightarrow> string \<Rightarrow> (string \<times> string list) list" where
  "appendError [] k msg = [(k, [msg])]"
| "appendError ((k', ms) # errors) k msg =
     (if k' = k then (k', ms @ [msg]) # errors else (k', ms) # appendError errors k msg)"

definition pushError ::
  "(string \<times> string list) list \<Rightarrow> string \<Rightarrow> string \<Rightarrow>
   error + (string \<times> string list) list" where
  "pushError errors k msg =
     (if k \<in> set Object_prototype_names
      then Inl (TypeError ''errors[fieldName].push is not a function'')
      else Inr (appendError errors k msg))"

text \<open>\<^verbatim>\<open>definitions.find(d => d.name === fieldName)\<close>: the first definition of that name.\<close>

definition findDefinition :: "CustomFieldDefinition list \<Rightarrow> string \<Rightarrow> CustomFieldDefinition option" where
  "findDefinition definitions fieldName = List.find (\<lambda>d. name d = fieldName) definitions"

text \<open>
  The first loop, over \<^verbatim>\<open>Object.entries(customFields)\<close>: the errors collected, or the
  error thrown on the way.
\<close>

fun validateProvided ::
  "(jsval \<Rightarrow> jsnum) \<Rightarrow> CustomFieldDefinition list \<Rightarrow> jsobj \<Rightarrow>
   (string \<times> string list) list \<Rightarrow> error + (string \<times> string list) list" where
  "validateProvided newDate definitions [] errors = Inr errors"
| "validateProvided newDate definitions ((fieldName, v) # entries) errors =
     (case findDefinition definitions fieldName of
        None \<Rightarrow>
          (case pushError errors fieldName (''Unknown custom field: '' @ fieldName) of
             Inl e \<Rightarrow> Inl e
           | Inr errors' \<Rightarrow> validateProvided newDate definitions entries errors')
      | Some defn \<Rightarrow>
          (case validateCustomFieldValue newDate defn v of
             Invalid msg \<Rightarrow>
               (case pushError errors fieldName msg of
                  Inl e \<Rightarrow> Inl e
                | Inr errors' \<Rightarrow> validateProvided newDate definitions entries errors')
           | Valid \<Rightarrow> validateProvided newDate definitions entries errors))"

text \<open>
  The second loop, over the definitions, for required fields that are missing:
  \<^verbatim>\<open>if (definition.required && !(definition.name in customFields))\<close>.
\<close>

fun checkRequired ::
  "CustomFieldDefinition list \<Rightarrow> jsobj \<Rightarrow> (string \<times> string list) list \<Rightarrow>
   error + (string \<times> string list) list" where
  "checkRequired [] customFields errors = Inr errors"
| "checkRequired (defn # definitions) customFields errors =
     (if required defn \<and> \<not> js_in (name defn) customFields
      then (case pushError errors (name defn)
                   (''Required field '' @ apos @ label defn @ apos @ '' is missing'') of
              Inl e \<Rightarrow> Inl e
            | Inr errors' \<Rightarrow> checkRequired definitions customFields errors')
      else checkRequired definitions customFields errors)"

definition validateCustomFields ::
  "(jsval \<Rightarrow> jsnum) \<Rightarrow> CustomFieldDefinition list \<Rightarrow> jsobj \<Rightarrow> error + unit" where
  "validateCustomFields newDate definitions customFields =
     (case validateProvided newDate definitions customFields [] of
        Inl e \<Rightarrow> Inl e
      | Inr provided \<Rightarrow>
          (case checkRequired definitions customFields provided of
             Inl e \<Rightarrow> Inl e
           | Inr errors \<Rightarrow>
               if length (Object_keys errors) > 0
               then Inl (ValidationError ''Custom field validation failed'' errors)
               else Inr ()))"

section \<open>Translating store errors\<close>

text \<open>
  The handlers receive whatever was thrown (\<^verbatim>\<open>error: any\<close>) and read
  \<^verbatim>\<open>error.code\<close>, \<^verbatim>\<open>error.detail\<close>, \<^verbatim>\<open>error.constraint\<close> and
  \<^verbatim>\<open>error.column\<close>; only an error of the store has these properties, on any
  other thrown value they are undefined.
\<close>

definition err_code :: "error \<Rightarrow> string option" where
  "err_code e = (case e of PgError p \<Rightarrow> code p | _ \<Rightarrow> None)"

definition err_detail :: "error \<Rightarrow> string option" where
  "err_detail e = (case e of PgError p \<Rightarrow> detail p | _ \<Rightarrow> None)"

definition err_constraint :: "error \<Rightarrow> string option" where
  "err_constraint e = (case e of PgError p \<Rightarrow> constraint_name p | _ \<Rightarrow> None)"

definition err_column :: "error \<Rightarrow> string option" where
  "err_column e = (case e of PgError p \<Rightarrow> column_name p | _ \<Rightarrow> None)"

text \<open>\<^verbatim>\<open>s || d\<close> on an optional string: undefined and the empty string are falsy.\<close>

definition or_else :: "string option \<Rightarrow> string \<Rightarrow> string" where
  "or_else s d = (case s of None \<Rightarrow> d | Some x \<Rightarrow> if x = [] then d else x)"

text \<open>\<^verbatim>\<open>handleDatabaseError\<close> of utils/error-handler.ts, exported for the callers of the library.\<close>

definition handleDatabaseError :: "error \<Rightarrow> error" where
  "handleDatabaseError e =
     (if err_code e = Some ''23503'' then
        (let detail = or_else (err_detail e) [];
             message =
               (if str_includes detail ''company_id'' then ''Referenced company does not exist''
                else if str_includes detail ''contact_id'' then ''Referenced contact does not exist''
                else ''Foreign key constraint violation'')
         in ConstraintViolationError message (or_else (err_constraint e) ''unknown''))
      else if err_code e = Some ''23505'' then
        (let detail = or_else (err_detail e) [];
             message =
               (if str_includes detail ''email'' then ''Email address already exists''
                else if str_includes detail ''name'' then ''Name already exists''
                else ''Unique constraint violation'')
         in ConstraintViolationError message (or_else (err_constraint e) ''unknown''))
      else if err_code e = Some ''23514'' then
        (let constraint = or_else (err_constraint e) [];
             message =
               (if str_includes constraint ''probability''
                then ''Probability must be between 0 and 100''
                else if str_includes constraint ''status'' then ''Invalid status value''
                else ''Check constraint violation'')
         in ConstraintViolationError message (or_else (err_constraint e) ''unknown''))
      else if err_code e = Some ''23502'' then
        (let column = or_else (err_column e) ''unknown''
         in ConstraintViolationError
              (''Required field '' @ apos @ column @ apos @ '' cannot be null'') ''not_null'')
      else if err_code e = Some ''22P02'' then
        ValidationError ''Invalid data format''
          [(''format'', [''Invalid UUID or data type format''])]
      else DatabaseError ''Database operation failed'' e)"

text \<open>
  The repositories. Each of the six classes that extend \<^verbatim>\<open>BaseRepository\<close> has a
  private \<^verbatim>\<open>handleDatabaseError\<close> of its own; the six bodies are the same except for
  the message of the unique violation in the custom field definition repository.
\<close>

datatype repository =
    ContactRepository
  | CompanyRepository
  | DealRepository
  | TaskRepository
  | NoteRepository
  | CustomFieldDefinitionRepository

definition unique_violation_message :: "repository \<Rightarrow> string" where
  "unique_violation_message r =
     (if r = CustomFieldDefinitionRepository
      then ''Unique constraint violation - field name already exists for this entity type''
      else ''Unique constraint violation'')"

definition repoHandleDatabaseError :: "repository \<Rightarrow> error \<Rightarrow> error" where
  "repoHandleDatabaseError r e =
     (if err_code e = Some ''23503'' then
        ConstraintViolationError ''Foreign key constraint violation''
          (or_else (err_constraint e) ''unknown'')
      else if err_code e = Some ''23505'' then
        ConstraintViolationError (unique_violation_message r)
          (or_else (err_constraint e) ''unknown'')
      else if err_code e = Some ''23514'' then
        ConstraintViolationError ''Check constraint violation''
          (or_else (err_constraint e) ''unknown'')
      else DatabaseError ''Database operation failed'' e)"

section \<open>The store\<close>

text \<open>
  The relational store is an external collaborator. Its state is a list of rows per
  table; a row maps column names to values. What the store answers to the statements to
  come is part of the state: \<open>faults\<close> holds one entry per coming statement, \<open>None\<close> when
  the statement executes and \<open>Some e\<close> when the store reports the error \<open>e\<close> (a violated
  constraint, a malformed literal, a lost connection) and changes nothing; past the end
  of the list every statement executes. Constraints, cascades and checks of the schema
  appear only as such faults. \<open>clock\<close> is what \<^verbatim>\<open>NOW()\<close> returns and \<open>next_id\<close> numbers the
  identifiers that \<^verbatim>\<open>gen_random_uuid()\<close> hands out.
\<close>

record db =
  tables :: "string \<Rightarrow> jsobj list"
  faults :: "pg_error option list"
  clock :: real
  next_id :: nat

definition take_fault :: "db \<Rightarrow> pg_error option \<times> db" where
  "take_fault d = (case faults d of [] \<Rightarrow> (None, d) | f # fs \<Rightarrow> (f, d\<lparr>faults := fs\<rparr>))"

text \<open>
  The store executes the next statement: the next entry of \<open>faults\<close> is not an error.
\<close>

definition store_executes :: "db \<Rightarrow> bool" where
  "store_executes d = (case faults d of [] \<Rightarrow> True | f # fs \<Rightarrow> f = None)"

text \<open>The audit records: the rows of the table \<open>audit_logs\<close>, oldest first.\<close>

definition audit_rows :: "db \<Rightarrow> jsobj list" where
  "audit_rows d = tables d ''audit_logs''"

fun digits :: "nat \<Rightarrow> string" where
  "digits n = (if n < 10 then [''0123456789'' ! n]
               else digits (n div 10) @ [''0123456789'' ! (n mod 10)])"

declare digits.simps [simp del]

definition uuid :: "nat \<Rightarrow> string" where
  "uuid n = ''id-'' @ digits n"

text \<open>A query parameter that is undefined reaches the store as NULL.\<close>

definition pg_param :: "jsval \<Rightarrow> jsval" where
  "pg_param v = (if v = JUndefined then JNull else v)"

text \<open>\<^verbatim>\<open>obj[key] = v\<close>.\<close>

fun set_prop :: "jsobj \<Rightarrow> string \<Rightarrow> jsval \<Rightarrow> jsobj" where
  "set_prop [] k v = [(k, v)]"
| "set_prop ((k', v') # obj) k v =
     (if k' = k then (k', v) # obj else (k', v') # set_prop obj k v)"

text \<open>
  The columns that the tables fill in by default when an INSERT of the repositories
  leaves them out (the migration that creates the tables): the identifier everywhere, \<open>timestamp\<close> in
  \<open>audit_logs\<close>, \<open>created_at\<close> in \<open>custom_field_definitions\<close>, and \<open>created_at\<close> and
  \<open>updated_at\<close> in the five entity tables.
\<close>

definition generated_columns :: "string \<Rightarrow> db \<Rightarrow> jsobj" where
  "generated_columns t d =
     (if t = ''audit_logs'' then
        [(''id'', JStr (uuid (next_id d))), (''timestamp'', JDate (Finite (clock d)))]
      else if t = ''custom_field_definitions'' then
        [(''id'', JStr (uuid (next_id d))), (''created_at'', JDate (Finite (clock d)))]
      else
        [(''id'', JStr (uuid (next_id d))), (''created_at'', JDate (Finite (clock d))),
         (''updated_at'', JDate (Finite (clock d)))])"

text \<open>\<^verbatim>\<open>INSERT INTO t (columns) VALUES (...) RETURNING *\<close>: the stored row.\<close>

definition sql_insert :: "string \<Rightarrow> jsobj \<Rightarrow> db \<Rightarrow> (error + jsobj) \<times> db" where
  "sql_insert t vals d =
     (case take_fault d of
        (Some e, d') \<Rightarrow> (Inl (PgError e), d')
      | (None, d') \<Rightarrow>
          (let row = generated_columns t d' @ map (\<lambda>(c, v). (c, pg_param v)) vals
           in (Inr row,
               d'\<lparr>tables := (tables d')(t := tables d' t @ [row]),
                   next_id := Suc (next_id d')\<rparr>)))"

text \<open>\<^verbatim>\<open>SELECT * FROM t WHERE id = $1\<close>: the matching rows.\<close>

definition has_id :: "string \<Rightarrow> jsobj \<Rightarrow> bool" where
  "has_id i row = (get_prop row ''id'' = JStr i)"

definition sql_select_by_id :: "string \<Rightarrow> string \<Rightarrow> db \<Rightarrow> (error + jsobj list) \<times> db" where
  "sql_select_by_id t i d =
     (case take_fault d of
        (Some e, d') \<Rightarrow> (Inl (PgError e), d')
      | (None, d') \<Rightarrow> (Inr (filter (has_id i) (tables d' t)), d'))"

text \<open>
  \<^verbatim>\<open>SELECT * FROM t WHERE 1=1 [AND c = $1] ORDER BY created_at DESC\<close>, the query that
  \<^verbatim>\<open>findAll\<close> builds for at most one equality filter and no pagination. The newest
  row is the one inserted last, so the result is the matching rows in reverse order of
  insertion.
\<close>

definition sql_select_where ::
  "string \<Rightarrow> (string \<times> jsval) option \<Rightarrow> db \<Rightarrow> (error + jsobj list) \<times> db" where
  "sql_select_where t cond d =
     (case take_fault d of
        (Some e, d') \<Rightarrow> (Inl (PgError e), d')
      | (None, d') \<Rightarrow>
          (Inr (rev (case cond of
                       None \<Rightarrow> tables d' t
                     | Some (c, v) \<Rightarrow> filter (\<lambda>row. get_prop row c = v) (tables d' t))),
           d'))"

text \<open>\<^verbatim>\<open>UPDATE t SET c1 = v1, ... WHERE id = $n RETURNING *\<close>: the rows as updated.\<close>

definition apply_sets :: "(string \<times> jsval) list \<Rightarrow> jsobj \<Rightarrow> jsobj" where
  "apply_sets sets row = fold (\<lambda>(c, v) r. set_prop r c (pg_param v)) sets row"

definition sql_update_by_id ::
  "string \<Rightarrow> (string \<times> jsval) list \<Rightarrow> string \<Rightarrow> db \<Rightarrow> (error + jsobj list) \<times> db" where
  "sql_update_by_id t sets i d =
     (case take_fault d of
        (Some e, d') \<Rightarrow> (Inl (PgError e), d')
      | (None, d') \<Rightarrow>
          (Inr (map (apply_sets sets) (filter (has_id i) (tables d' t))),
           d'\<lparr>tables := (tables d')(t :=
                 map (\<lambda>row. if has_id i row then apply_sets sets row else row) (tables d' t))\<rparr>))"

text \<open>\<^verbatim>\<open>DELETE FROM t WHERE id = $1\<close>: the number of rows removed (\<^verbatim>\<open>rowCount\<close>).\<close>

definition sql_delete_by_id :: "string \<Rightarrow> string \<Rightarrow> db \<Rightarrow> (error + nat) \<times> db" where
  "sql_delete_by_id t i d =
     (case take_fault d of
        (Some e, d') \<Rightarrow> (Inl (PgError e), d')
      | (None, d') \<Rightarrow>
          (Inr (length (filter (has_id i) (tables d' t))),
           d'\<lparr>tables := (tables d')(t := filter (\<lambda>row. \<not> has_id i row) (tables d' t))\<rparr>))"

section \<open>The JavaScript runtime and the schema engine\<close>

text \<open>
  What the code takes from outside the repository: the Date constructor
  (\<open>rt_newDate v\<close> is the time value of \<^verbatim>\<open>new Date(v)\<close>), \<^verbatim>\<open>parseFloat\<close>,
  \<^verbatim>\<open>JSON.stringify\<close> (\<open>None\<close> is undefined) and the zod engine behind
  \<^verbatim>\<open>validateData(schema, data)\<close>, which returns the parsed data or throws. The theorems
  hold for every such runtime.
\<close>

datatype schema = CreateSchema repository | UpdateSchema repository

record runtime =
  rt_newDate :: "jsval \<Rightarrow> jsnum"
  rt_parseFloat :: "jsval \<Rightarrow> jsnum"
  rt_stringify :: "jsval \<Rightarrow> string option"
  rt_parse :: "schema \<Rightarrow> jsobj \<Rightarrow> error + jsobj"

text \<open>Truthiness, and \<^verbatim>\<open>a || b\<close> on values.\<close>

fun truthy :: "jsval \<Rightarrow> bool" where
  "truthy JUndefined = False"
| "truthy JNull = False"
| "truthy (JBool b) = b"
| "truthy (JNum n) = (n \<noteq> NaN \<and> n \<noteq> Finite 0)"
| "truthy (JStr s) = (s \<noteq> [])"
| "truthy (JDate t) = True"
| "truthy (JArr xs) = True"
| "truthy (JObj ps) = True"

definition js_or :: "jsval \<Rightarrow> jsval \<Rightarrow> jsval" where
  "js_or a b = (if truthy a then a else b)"

section \<open>Repositories (repositories/*.repository.ts)\<close>

text \<open>
  The six repositories that extend \<^verbatim>\<open>BaseRepository\<close> have the same methods and
  differ in the table, the name given to \<^verbatim>\<open>NotFoundError\<close>, the columns they write and
  the mapping of a row to an entity. A JSON column is written with
  \<^verbatim>\<open>JSON.stringify\<close> and read back parsed by the driver; the model stores the value.
\<close>

definition tableName :: "repository \<Rightarrow> string" where
  "tableName r =
     (case r of
        ContactRepository \<Rightarrow> ''contacts''
      | CompanyRepository \<Rightarrow> ''companies''
      | DealRepository \<Rightarrow> ''deals''
      | TaskRepository \<Rightarrow> ''tasks''
      | NoteRepository \<Rightarrow> ''notes''
      | CustomFieldDefinitionRepository \<Rightarrow> ''custom_field_definitions'')"

definition entityName :: "repository \<Rightarrow> string" where
  "entityName r =
     (case r of
        ContactRepository \<Rightarrow> ''Contact''
      | CompanyRepository \<Rightarrow> ''Company''
      | DealRepository \<Rightarrow> ''Deal''
      | TaskRepository \<Rightarrow> ''Task''
      | NoteRepository \<Rightarrow> ''Note''
      | CustomFieldDefinitionRepository \<Rightarrow> ''CustomFieldDefinition'')"

text \<open>The \<^verbatim>\<open>values\<close> array of \<^verbatim>\<open>create\<close>, each value beside its column.\<close>

definition insert_values :: "repository \<Rightarrow> jsobj \<Rightarrow> string \<Rightarrow> jsobj" where
  "insert_values r data userId =
     (case r of
        ContactRepository \<Rightarrow>
          [(''first_name'', get_prop data ''firstName''),
           (''last_name'', get_prop data ''lastName''),
           (''emails'', js_or (get_prop data ''emails'') (JArr [])),
           (''phones'', js_or (get_prop data ''phones'') (JArr [])),
           (''company_id'', get_prop data ''companyId''),
           (''custom_fields'', js_or (get_prop data ''customFields'') (JObj [])),
           (''created_by'', JStr userId),
           (''updated_by'', JStr userId)]
      | CompanyRepository \<Rightarrow>
          [(''name'', get_prop data ''name''),
           (''address'', if truthy (get_prop data ''address'')
                         then get_prop data ''address'' else JNull),
           (''custom_fields'', js_or (get_prop data ''customFields'') (JObj [])),
           (''created_by'', JStr userId),
           (''updated_by'', JStr userId)]
      | DealRepository \<Rightarrow>
          [(''title'', get_prop data ''title''),
           (''company_id'', get_prop data ''companyId''),
           (''contact_id'', get_prop data ''contactId''),
           (''value'', get_prop data ''value''),
           (''currency'', js_or (get_prop data ''currency'') (JStr ''USD'')),
           (''stage'', get_prop data ''stage''),
           (''probability'', get_prop data ''probability''),
           (''close_date'', get_prop data ''closeDate''),
           (''custom_fields'', js_or (get_prop data ''customFields'') (JObj [])),
           (''created_by'', JStr userId),
           (''updated_by'', JStr userId)]
      | TaskRepository \<Rightarrow>
          [(''description'', get_prop data ''description''),
           (''due_date'', get_prop data ''dueDate''),
           (''assigned_to'', get_prop data ''assignedTo''),
           (''status'', get_prop data ''status''),
           (''entity_type'', get_prop data ''entityType''),
           (''entity_id'', get_prop data ''entityId''),
           (''created_by'', JStr userId),
           (''updated_by'', JStr userId)]
      | NoteRepository \<Rightarrow>
          [(''content'', get_prop data ''content''),
           (''entity_type'', get_prop data ''entityType''),
           (''entity_id'', get_prop data ''entityId''),
           (''created_by'', JStr userId),
           (''updated_by'', JStr userId)]
      | CustomFieldDefinitionRepository \<Rightarrow>
          [(''name'', get_prop data ''name''),
           (''label'', get_prop data ''label''),
           (''entity_type'', get_prop data ''entityType''),
           (''field_type'', get_prop data ''fieldType''),
           (''enum_values'', get_prop data ''enumValues''),
           (''required'', get_prop data ''required''),
           (''created_by'', JStr userId)])"

text \<open>
  The head of \<^verbatim>\<open>update\<close>: one \<^verbatim>\<open>if (data.f !== undefined)\<close> per recognized field,
  each pushing a column and a value.
\<close>

definition recognized :: "jsobj \<Rightarrow> string \<Rightarrow> string \<Rightarrow> (string \<times> jsval) list" where
  "recognized data field column =
     (if get_prop data field \<noteq> JUndefined then [(column, get_prop data field)] else [])"

definition update_columns :: "repository \<Rightarrow> jsobj \<Rightarrow> (string \<times> jsval) list" where
  "update_columns r data =
     (case r of
        ContactRepository \<Rightarrow>
          recognized data ''firstName'' ''first_name'' @
          recognized data ''lastName'' ''last_name'' @
          recognized data ''emails'' ''emails'' @
          recognized data ''phones'' ''phones'' @
          recognized data ''companyId'' ''company_id'' @
          recognized data ''customFields'' ''custom_fields''
      | CompanyRepository \<Rightarrow>
          recognized data ''name'' ''name'' @
          (if get_prop data ''address'' \<noteq> JUndefined
           then [(''address'', if truthy (get_prop data ''address'')
                               then get_prop data ''address'' else JNull)]
           else []) @
          recognized data ''customFields'' ''custom_fields''
      | DealRepository \<Rightarrow>
          recognized data ''title'' ''title'' @
          recognized data ''companyId'' ''company_id'' @
          recognized data ''contactId'' ''contact_id'' @
          recognized data ''value'' ''value'' @
          recognized data ''currency'' ''currency'' @
          recognized data ''stage'' ''stage'' @
          recognized data ''probability'' ''probability'' @
          recognized data ''closeDate'' ''close_date'' @
          recognized data ''customFields'' ''custom_fields''
      | TaskRepository \<Rightarrow>
          recognized data ''description'' ''description'' @
          recognized data ''dueDate'' ''due_date'' @
          recognized data ''assignedTo'' ''assigned_to'' @
          recognized data ''status'' ''status''
      | NoteRepository \<Rightarrow>
          recognized data ''content'' ''content''
      | CustomFieldDefinitionRepository \<Rightarrow>
          recognized data ''label'' ''label'' @
          recognized data ''required'' ''required'')"

text \<open>
  The fields that \<^verbatim>\<open>update\<close> recognizes, as listed by its tests: everything else in the
  partial data is ignored.
\<close>

definition recognized_fields :: "repository \<Rightarrow> string list" where
  "recognized_fields r =
     (case r of
        ContactRepository \<Rightarrow>
          [''firstName'', ''lastName'', ''emails'', ''phones'', ''companyId'', ''customFields'']
      | CompanyRepository \<Rightarrow> [''name'', ''address'', ''customFields'']
      | DealRepository \<Rightarrow>
          [''title'', ''companyId'', ''contactId'', ''value'', ''currency'', ''stage'',
           ''probability'', ''closeDate'', ''customFields'']
      | TaskRepository \<Rightarrow> [''description'', ''dueDate'', ''assignedTo'', ''status'']
      | NoteRepository \<Rightarrow> [''content'']
      | CustomFieldDefinitionRepository \<Rightarrow> [''label'', ''required''])"

text \<open>
  The tail of the SET list: every repository but the one of the custom field definitions
  adds \<^verbatim>\<open>updated_at = NOW()\<close> and \<^verbatim>\<open>updated_by = $n\<close>.
\<close>

definition update_stamp :: "repository \<Rightarrow> string \<Rightarrow> db \<Rightarrow> (string \<times> jsval) list" where
  "update_stamp r userId d =
     (if r = CustomFieldDefinitionRepository then []
      else [(''updated_at'', JDate (Finite (clock d))), (''updated_by'', JStr userId)])"

text \<open>\<^verbatim>\<open>mapRowToContact\<close>, \<^verbatim>\<open>mapRowToCompany\<close> and the other four.\<close>

definition date_of :: "runtime \<Rightarrow> jsval \<Rightarrow> jsval" where
  "date_of rt v = JDate (rt_newDate rt v)"

definition mapRow :: "runtime \<Rightarrow> repository \<Rightarrow> jsobj \<Rightarrow> jsobj" where
  "mapRow rt r row =
     (case r of
        ContactRepository \<Rightarrow>
          [(''id'', get_prop row ''id''),
           (''firstName'', get_prop row ''first_name''),
           (''lastName'', get_prop row ''last_name''),
           (''emails'', js_or (get_prop row ''emails'') (JArr [])),
           (''phones'', js_or (get_prop row ''phones'') (JArr [])),
           (''companyId'', get_prop row ''company_id''),
           (''customFields'', js_or (get_prop row ''custom_fields'') (JObj [])),
           (''createdAt'', date_of rt (get_prop row ''created_at'')),
           (''updatedAt'', date_of rt (get_prop row ''updated_at'')),
           (''createdBy'', get_prop row ''created_by''),
           (''updatedBy'', get_prop row ''updated_by'')]
      | CompanyRepository \<Rightarrow>
          [(''id'', get_prop row ''id''),
           (''name'', get_prop row ''name''),
           (''address'', js_or (get_prop row ''address'') JNull),
           (''customFields'', js_or (get_prop row ''custom_fields'') (JObj [])),
           (''createdAt'', date_of rt (get_prop row ''created_at'')),
           (''updatedAt'', date_of rt (get_prop row ''updated_at'')),
           (''createdBy'', get_prop row ''created_by''),
           (''updatedBy'', get_prop row ''updated_by'')]
      | DealRepository \<Rightarrow>
          [(''id'', get_prop row ''id''),
           (''title'', get_prop row ''title''),
           (''companyId'', get_prop row ''company_id''),
           (''contactId'', get_prop row ''contact_id''),
           (''value'', JNum (rt_parseFloat rt (get_prop row ''value''))),
           (''currency'', get_prop row ''currency''),
           (''stage'', get_prop row ''stage''),
           (''probability'', get_prop row ''probability''),
           (''closeDate'', if truthy (get_prop row ''close_date'')
                           then date_of rt (get_prop row ''close_date'') else JNull),
           (''customFields'', js_or (get_prop row ''custom_fields'') (JObj [])),
           (''createdAt'', date_of rt (get_prop row ''created_at'')),
           (''updatedAt'', date_of rt (get_prop row ''updated_at'')),
           (''createdBy'', get_prop row ''created_by''),
           (''updatedBy'', get_prop row ''updated_by'')]
      | TaskRepository \<Rightarrow>
          [(''id'', get_prop row ''id''),
           (''description'', get_prop row ''description''),
           (''dueDate'', if truthy (get_prop row ''due_date'')
                         then date_of rt (get_prop row ''due_date'') else JNull),
           (''assignedTo'', get_prop row ''assigned_to''),
           (''status'', get_prop row ''status''),
           (''entityType'', get_prop row ''entity_type''),
           (''entityId'', get_prop row ''entity_id''),
           (''createdAt'', date_of rt (get_prop row ''created_at'')),
           (''updatedAt'', date_of rt (get_prop row ''updated_at'')),
           (''createdBy'', get_prop row ''created_by''),
           (''updatedBy'', get_prop row ''updated_by'')]
      | NoteRepository \<Rightarrow>
          [(''id'', get_prop row ''id''),
           (''content'', get_prop row ''content''),
           (''entityType'', get_prop row ''entity_type''),
           (''entityId'', get_prop row ''entity_id''),
           (''createdAt'', date_of rt (get_prop row ''created_at'')),
           (''updatedAt'', date_of rt (get_prop row ''updated_at'')),
           (''createdBy'', get_prop row ''created_by''),
           (''updatedBy'', get_prop row ''updated_by'')]
      | CustomFieldDefinitionRepository \<Rightarrow>
          [(''id'', get_prop row ''id''),
           (''name'', get_prop row ''name''),
           (''label'', get_prop row ''label''),
           (''entityType'', get_prop row ''entity_type''),
           (''fieldType'', get_prop row ''field_type''),
           (''enumValues'', js_or (get_prop row ''enum_values'') JNull),
           (''required'', get_prop row ''required''),
           (''createdAt'', date_of rt (get_prop row ''created_at'')),
           (''createdBy'', get_prop row ''created_by'')])"

text \<open>\<^verbatim>\<open>create(data, userId)\<close>.\<close>

definition repo_create ::
  "runtime \<Rightarrow> repository \<Rightarrow> jsobj \<Rightarrow> string \<Rightarrow> db \<Rightarrow> (error + jsobj) \<times> db" where
  "repo_create rt r data userId d =
     (case sql_insert (tableName r) (insert_values r data userId) d of
        (Inl e, d') \<Rightarrow> (Inl (repoHandleDatabaseError r e), d')
      | (Inr row, d') \<Rightarrow> (Inr (mapRow rt r row), d'))"

text \<open>\<^verbatim>\<open>findById(id)\<close>: the entity, or \<open>None\<close> for \<^verbatim>\<open>null\<close>.\<close>

definition repo_findById ::
  "runtime \<Rightarrow> repository \<Rightarrow> string \<Rightarrow> db \<Rightarrow> (error + jsobj option) \<times> db" where
  "repo_findById rt r i d =
     (case sql_select_by_id (tableName r) i d of
        (Inl e, d') \<Rightarrow> (Inl (repoHandleDatabaseError r e), d')
      | (Inr [], d') \<Rightarrow> (Inr None, d')
      | (Inr (row # rows), d') \<Rightarrow> (Inr (Some (mapRow rt r row)), d'))"

text \<open>
  The \<^verbatim>\<open>catch\<close> of \<^verbatim>\<open>update\<close> and \<^verbatim>\<open>delete\<close>: a \<^verbatim>\<open>NotFoundError\<close> is thrown on
  as it is, everything else goes through the repository's \<^verbatim>\<open>handleDatabaseError\<close>.
\<close>

definition rethrow :: "repository \<Rightarrow> error \<Rightarrow> error" where
  "rethrow r e = (case e of NotFoundError t i \<Rightarrow> e | _ \<Rightarrow> repoHandleDatabaseError r e)"

text \<open>\<^verbatim>\<open>update(id, data, userId)\<close>.\<close>

definition repo_update ::
  "runtime \<Rightarrow> repository \<Rightarrow> string \<Rightarrow> jsobj \<Rightarrow> string \<Rightarrow> db \<Rightarrow> (error + jsobj) \<times> db" where
  "repo_update rt r i data userId d =
     (let updates = update_columns r data in
      if length updates = 0 then
        (case repo_findById rt r i d of
           (Inl e, d') \<Rightarrow> (Inl (rethrow r e), d')
         | (Inr None, d') \<Rightarrow> (Inl (rethrow r (NotFoundError (entityName r) i)), d')
         | (Inr (Some existing), d') \<Rightarrow> (Inr existing, d'))
      else
        (case sql_update_by_id (tableName r) (updates @ update_stamp r userId d) i d of
           (Inl e, d') \<Rightarrow> (Inl (rethrow r e), d')
         | (Inr [], d') \<Rightarrow> (Inl (rethrow r (NotFoundError (entityName r) i)), d')
         | (Inr (row # rows), d') \<Rightarrow> (Inr (mapRow rt r row), d')))"

text \<open>
  \<^verbatim>\<open>delete(id, userId)\<close>. Five repositories delete and look at \<^verbatim>\<open>rowCount\<close>; the
  repository of the custom field definitions looks the definition up first and
  deletes after.
\<close>

definition repo_delete ::
  "runtime \<Rightarrow> repository \<Rightarrow> string \<Rightarrow> string \<Rightarrow> db \<Rightarrow> (error + unit) \<times> db" where
  "repo_delete rt r i userId d =
     (if r = CustomFieldDefinitionRepository then
        (case repo_findById rt r i d of
           (Inl e, d') \<Rightarrow> (Inl (rethrow r e), d')
         | (Inr None, d') \<Rightarrow> (Inl (rethrow r (NotFoundError (entityName r) i)), d')
         | (Inr (Some defn), d') \<Rightarrow>
             (case sql_delete_by_id (tableName r) i d' of
                (Inl e, d'') \<Rightarrow> (Inl (rethrow r e), d'')
              | (Inr n, d'') \<Rightarrow> (Inr (), d'')))
      else
        (case sql_delete_by_id (tableName r) i d of
           (Inl e, d') \<Rightarrow> (Inl (rethrow r e), d')
         | (Inr n, d') \<Rightarrow>
             if n = 0 then (Inl (rethrow r (NotFoundError (entityName r) i)), d')
             else (Inr (), d')))"

text \<open>
  \<^verbatim>\<open>findByEntityType(entityType)\<close> of the custom field definition repository, which is
  \<^verbatim>\<open>findAll({ entityType })\<close>: the filter is added when \<^verbatim>\<open>filters.entityType\<close> is
  truthy, that is for a non-empty string.
\<close>

definition findByEntityType ::
  "runtime \<Rightarrow> string \<Rightarrow> db \<Rightarrow> (error + jsobj list) \<times> db" where
  "findByEntityType rt entity_type d =
     (case sql_select_where ''custom_field_definitions''
             (if entity_type \<noteq> [] then Some (''entity_type'', JStr entity_type) else None) d of
        (Inl e, d') \<Rightarrow> (Inl (repoHandleDatabaseError CustomFieldDefinitionRepository e), d')
      | (Inr rows, d') \<Rightarrow> (Inr (map (mapRow rt CustomFieldDefinitionRepository) rows), d'))"

text \<open>
  \<^verbatim>\<open>createAuditLog\<close> of the audit log repository, which has no
  \<^verbatim>\<open>handleDatabaseError\<close>: every failure is wrapped as a \<^verbatim>\<open>DatabaseError\<close>.
  \<^verbatim>\<open>changes ? JSON.stringify(changes) : null\<close> stores the payload or null.
\<close>

definition mapRowToAuditLog :: "runtime \<Rightarrow> jsobj \<Rightarrow> jsobj" where
  "mapRowToAuditLog rt row =
     [(''id'', get_prop row ''id''),
      (''entityType'', get_prop row ''entity_type''),
      (''entityId'', get_prop row ''entity_id''),
      (''action'', get_prop row ''action''),
      (''userId'', get_prop row ''user_id''),
      (''changes'', js_or (get_prop row ''changes'') JNull),
      (''timestamp'', date_of rt (get_prop row ''timestamp''))]"

definition createAuditLog ::
  "runtime \<Rightarrow> string \<Rightarrow> jsval \<Rightarrow> string \<Rightarrow> string \<Rightarrow> jsval \<Rightarrow> db \<Rightarrow> (error + jsobj) \<times> db" where
  "createAuditLog rt entity_type entity_id action userId changes d =
     (case sql_insert ''audit_logs''
             [(''entity_type'', JStr entity_type),
              (''entity_id'', entity_id),
              (''action'', JStr action),
              (''user_id'', JStr userId),
              (''changes'', if truthy changes then changes else JNull)] d of
        (Inl e, d') \<Rightarrow> (Inl (DatabaseError ''Failed to create audit log'' e), d')
      | (Inr row, d') \<Rightarrow> (Inr (mapRowToAuditLog rt row), d'))"

section \<open>Audit helper (utils/audit.ts)\<close>

text \<open>\<^verbatim>\<open>new Set(xs)\<close>: the elements in the order of their first occurrence.\<close>

definition set_add :: "string list \<Rightarrow> string \<Rightarrow> string list" where
  "set_add s x = (if x \<in> set s then s else s @ [x])"

definition new_Set :: "string list \<Rightarrow> string list" where
  "new_Set xs = fold (\<lambda>x s. set_add s x) xs []"

definition metadata_fields :: "string list" where
  "metadata_fields = [''id'', ''createdAt'', ''createdBy'', ''updatedAt'', ''updatedBy'']"

text \<open>The loop of \<^verbatim>\<open>calculateChanges\<close> over the keys, \<open>changes\<close> being the object built so far.\<close>

fun changesLoop :: "runtime \<Rightarrow> jsobj \<Rightarrow> jsobj \<Rightarrow> string list \<Rightarrow> jsobj \<Rightarrow> jsobj" where
  "changesLoop rt before_obj after_obj [] changes = changes"
| "changesLoop rt before_obj after_obj (key # keys) changes =
     (if key \<in> set metadata_fields then changesLoop rt before_obj after_obj keys changes
      else
        (let beforeValue = get_prop before_obj key;
             afterValue = get_prop after_obj key
         in if rt_stringify rt beforeValue \<noteq> rt_stringify rt afterValue
            then changesLoop rt before_obj after_obj keys
                   (set_prop changes key
                      (JObj [(''before'', beforeValue), (''after'', afterValue)]))
            else changesLoop rt before_obj after_obj keys changes))"

definition calculateChanges :: "runtime \<Rightarrow> jsobj \<Rightarrow> jsobj \<Rightarrow> jsobj" where
  "calculateChanges rt before_obj after_obj =
     (let allKeys = new_Set (Object_keys before_obj @ Object_keys after_obj)
      in changesLoop rt before_obj after_obj allKeys [])"

text \<open>The three loggers await \<^verbatim>\<open>createAuditLog\<close> and drop its result.\<close>

definition logCreate ::
  "runtime \<Rightarrow> string \<Rightarrow> jsval \<Rightarrow> string \<Rightarrow> jsobj \<Rightarrow> db \<Rightarrow> (error + unit) \<times> db" where
  "logCreate rt entity_type entity_id userId entityData d =
     (case createAuditLog rt entity_type entity_id ''create'' userId
             (JObj [(''created'', JObj entityData)]) d of
        (Inl e, d') \<Rightarrow> (Inl e, d')
      | (Inr logged, d') \<Rightarrow> (Inr (), d'))"

definition logUpdate ::
  "runtime \<Rightarrow> string \<Rightarrow> jsval \<Rightarrow> string \<Rightarrow> jsobj \<Rightarrow> jsobj \<Rightarrow> db \<Rightarrow> (error + unit) \<times> db" where
  "logUpdate rt entity_type entity_id userId before_obj after_obj d =
     (let changes = calculateChanges rt before_obj after_obj
      in if length (Object_keys changes) > 0 then
           (case createAuditLog rt entity_type entity_id ''update'' userId (JObj changes) d of
              (Inl e, d') \<Rightarrow> (Inl e, d')
            | (Inr logged, d') \<Rightarrow> (Inr (), d'))
         else (Inr (), d))"

definition logDelete ::
  "runtime \<Rightarrow> string \<Rightarrow> jsval \<Rightarrow> string \<Rightarrow> jsobj \<Rightarrow> db \<Rightarrow> (error + unit) \<times> db" where
  "logDelete rt entity_type entity_id userId entityData d =
     (case createAuditLog rt entity_type entity_id ''delete'' userId
             (JObj [(''deleted'', JObj entityData)]) d of
        (Inl e, d') \<Rightarrow> (Inl e, d')
      | (Inr logged, d') \<Rightarrow> (Inr (), d'))"

section \<open>Services (services/*.service.ts)\<close>

text \<open>
  The five entity services have the same methods. They differ in their repository, in
  the entity type they log and look custom fields up under, in the word of their "not
  found" message, and in whether they validate custom fields (contact, company and deal
  do; task and note have none).
\<close>

datatype entity_service =
    ContactService
  | CompanyService
  | DealService
  | TaskService
  | NoteService

definition repository_of :: "entity_service \<Rightarrow> repository" where
  "repository_of s =
     (case s of
        ContactService \<Rightarrow> ContactRepository
      | CompanyService \<Rightarrow> CompanyRepository
      | DealService \<Rightarrow> DealRepository
      | TaskService \<Rightarrow> TaskRepository
      | NoteService \<Rightarrow> NoteRepository)"

definition entity_type_of :: "entity_service \<Rightarrow> string" where
  "entity_type_of s =
     (case s of
        ContactService \<Rightarrow> ''contact''
      | CompanyService \<Rightarrow> ''company''
      | DealService \<Rightarrow> ''deal''
      | TaskService \<Rightarrow> ''task''
      | NoteService \<Rightarrow> ''note'')"

definition has_custom_fields :: "entity_service \<Rightarrow> bool" where
  "has_custom_fields s = (s = ContactService \<or> s = CompanyService \<or> s = DealService)"

text \<open>
  \<^verbatim>\<open>throw new ValidationError('Company not found', { id: ['Company does not exist'] })\<close>
  and its siblings: what every service throws when \<^verbatim>\<open>findById\<close> returns null.
\<close>

definition not_found :: "string \<Rightarrow> error" where
  "not_found what = ValidationError (what @ '' not found'') [(''id'', [what @ '' does not exist''])]"

text \<open>
  A row of \<open>custom_field_definitions\<close>, mapped to an entity, read as a
  \<^verbatim>\<open>CustomFieldDefinition\<close>. The columns are typed by the table (strings, a boolean,
  an array of strings or null); \<^verbatim>\<open>definition.required\<close> and
  \<^verbatim>\<open>!definition.enumValues\<close> are tested for truthiness.
\<close>

definition string_of :: "jsval \<Rightarrow> string" where
  "string_of v = (case v of JStr s \<Rightarrow> s | _ \<Rightarrow> [])"

definition fieldType_of :: "jsval \<Rightarrow> CustomFieldType" where
  "fieldType_of v =
     (if v = JStr ''text'' then Text
      else if v = JStr ''number'' then Number
      else if v = JStr ''date'' then Date
      else if v = JStr ''enum'' then Enum
      else if v = JStr ''boolean'' then Boolean
      else OtherType (string_of v))"

definition toDefinition :: "jsobj \<Rightarrow> CustomFieldDefinition" where
  "toDefinition obj =
     \<lparr> def_id = string_of (get_prop obj ''id''),
       name = string_of (get_prop obj ''name''),
       label = string_of (get_prop obj ''label''),
       entityType = string_of (get_prop obj ''entityType''),
       fieldType = fieldType_of (get_prop obj ''fieldType''),
       enumValues = (case get_prop obj ''enumValues'' of
                       JArr xs \<Rightarrow> Some (map string_of xs)
                     | _ \<Rightarrow> None),
       required = truthy (get_prop obj ''required''),
       createdAt = (case get_prop obj ''createdAt'' of JDate t \<Rightarrow> t | _ \<Rightarrow> NaN),
       createdBy = string_of (get_prop obj ''createdBy'') \<rparr>"

text \<open>
  The block \<^verbatim>\<open>if (validatedData.customFields && Object.keys(...).length > 0)\<close> of
  create and update. The schemas type \<^verbatim>\<open>customFields\<close> as a record, so after
  \<^verbatim>\<open>validateData\<close> it is an object or, in an update, undefined.
\<close>

definition checkCustomFields ::
  "runtime \<Rightarrow> entity_service \<Rightarrow> jsobj \<Rightarrow> db \<Rightarrow> (error + unit) \<times> db" where
  "checkCustomFields rt s validatedData d =
     (case get_prop validatedData ''customFields'' of
        JObj customFields \<Rightarrow>
          if length (Object_keys customFields) > 0 then
            (case findByEntityType rt (entity_type_of s) d of
               (Inl e, d') \<Rightarrow> (Inl e, d')
             | (Inr customFieldDefs, d') \<Rightarrow>
                 (case validateCustomFields (rt_newDate rt)
                         (map toDefinition customFieldDefs) customFields of
                    Inl e \<Rightarrow> (Inl e, d')
                  | Inr ok \<Rightarrow> (Inr (), d')))
          else (Inr (), d)
      | _ \<Rightarrow> (Inr (), d))"

text \<open>\<^verbatim>\<open>createContact\<close>, \<^verbatim>\<open>createCompany\<close>, \<^verbatim>\<open>createDeal\<close>, \<^verbatim>\<open>createTask\<close>, \<^verbatim>\<open>createNote\<close>.\<close>

definition createEntity ::
  "runtime \<Rightarrow> entity_service \<Rightarrow> jsobj \<Rightarrow> string \<Rightarrow> db \<Rightarrow> (error + jsobj) \<times> db" where
  "createEntity rt s data userId d =
     (case rt_parse rt (CreateSchema (repository_of s)) data of
        Inl e \<Rightarrow> (Inl e, d)
      | Inr validatedData \<Rightarrow>
          (case (if has_custom_fields s then checkCustomFields rt s validatedData d
                 else (Inr (), d)) of
             (Inl e, d1) \<Rightarrow> (Inl e, d1)
           | (Inr ok, d1) \<Rightarrow>
               (case repo_create rt (repository_of s) validatedData userId d1 of
                  (Inl e, d2) \<Rightarrow> (Inl e, d2)
                | (Inr entity, d2) \<Rightarrow>
                    (case logCreate rt (entity_type_of s) (get_prop entity ''id'') userId
                            entity d2 of
                       (Inl e, d3) \<Rightarrow> (Inl e, d3)
                     | (Inr logged, d3) \<Rightarrow> (Inr entity, d3)))))"

text \<open>\<^verbatim>\<open>getContact\<close>, \<^verbatim>\<open>getCompany\<close>, \<^verbatim>\<open>getDeal\<close>, \<^verbatim>\<open>getTask\<close>, \<^verbatim>\<open>getNote\<close>.\<close>

definition getEntity ::
  "runtime \<Rightarrow> entity_service \<Rightarrow> string \<Rightarrow> db \<Rightarrow> (error + jsobj) \<times> db" where
  "getEntity rt s i d =
     (case repo_findById rt (repository_of s) i d of
        (Inl e, d') \<Rightarrow> (Inl e, d')
      | (Inr None, d') \<Rightarrow> (Inl (not_found (entityName (repository_of s))), d')
      | (Inr (Some entity), d') \<Rightarrow> (Inr entity, d'))"

text \<open>\<^verbatim>\<open>updateContact\<close>, \<^verbatim>\<open>updateCompany\<close>, \<^verbatim>\<open>updateDeal\<close>, \<^verbatim>\<open>updateTask\<close>, \<^verbatim>\<open>updateNote\<close>.\<close>

definition updateEntity ::
  "runtime \<Rightarrow> entity_service \<Rightarrow> string \<Rightarrow> jsobj \<Rightarrow> string \<Rightarrow> db \<Rightarrow> (error + jsobj) \<times> db" where
  "updateEntity rt s i data userId d =
     (case rt_parse rt (UpdateSchema (repository_of s)) data of
        Inl e \<Rightarrow> (Inl e, d)
      | Inr validatedData \<Rightarrow>
          (case repo_findById rt (repository_of s) i d of
             (Inl e, d1) \<Rightarrow> (Inl e, d1)
           | (Inr None, d1) \<Rightarrow> (Inl (not_found (entityName (repository_of s))), d1)
           | (Inr (Some existing), d1) \<Rightarrow>
               (case (if has_custom_fields s then checkCustomFields rt s validatedData d1
                      else (Inr (), d1)) of
                  (Inl e, d2) \<Rightarrow> (Inl e, d2)
                | (Inr ok, d2) \<Rightarrow>
                    (case repo_update rt (repository_of s) i validatedData userId d2 of
                       (Inl e, d3) \<Rightarrow> (Inl e, d3)
                     | (Inr updated, d3) \<Rightarrow>
                         (case logUpdate rt (entity_type_of s) (JStr i) userId
                                 existing updated d3 of
                            (Inl e, d4) \<Rightarrow> (Inl e, d4)
                          | (Inr logged, d4) \<Rightarrow> (Inr updated, d4))))))"

text \<open>\<^verbatim>\<open>deleteContact\<close>, \<^verbatim>\<open>deleteCompany\<close>, \<^verbatim>\<open>deleteDeal\<close>, \<^verbatim>\<open>deleteTask\<close>, \<^verbatim>\<open>deleteNote\<close>.\<close>

definition deleteEntity ::
  "runtime \<Rightarrow> entity_service \<Rightarrow> string \<Rightarrow> string \<Rightarrow> db \<Rightarrow> (error + unit) \<times> db" where
  "deleteEntity rt s i userId d =
     (case repo_findById rt (repository_of s) i d of
        (Inl e, d1) \<Rightarrow> (Inl e, d1)
      | (Inr None, d1) \<Rightarrow> (Inl (not_found (entityName (repository_of s))), d1)
      | (Inr (Some existing), d1) \<Rightarrow>
          (case repo_delete rt (repository_of s) i userId d1 of
             (Inl e, d2) \<Rightarrow> (Inl e, d2)
           | (Inr ok, d2) \<Rightarrow>
               (case logDelete rt (entity_type_of s) (JStr i) userId existing d2 of
                  (Inl e, d3) \<Rightarrow> (Inl e, d3)
                | (Inr logged, d3) \<Rightarrow> (Inr (), d3))))"

text \<open>
  The custom field service (services/custom-field.service.ts). It has a repository and
  nothing else: no audit helper, and no schema for updates.
\<close>

definition createCustomFieldDefinition ::
  "runtime \<Rightarrow> jsobj \<Rightarrow> string \<Rightarrow> db \<Rightarrow> (error + jsobj) \<times> db" where
  "createCustomFieldDefinition rt data userId d =
     (case rt_parse rt (CreateSchema CustomFieldDefinitionRepository) data of
        Inl e \<Rightarrow> (Inl e, d)
      | Inr validatedData \<Rightarrow>
          repo_create rt CustomFieldDefinitionRepository validatedData userId d)"

definition getCustomFieldDefinition ::
  "runtime \<Rightarrow> string \<Rightarrow> db \<Rightarrow> (error + jsobj) \<times> db" where
  "getCustomFieldDefinition rt i d =
     (case repo_findById rt CustomFieldDefinitionRepository i d of
        (Inl e, d') \<Rightarrow> (Inl e, d')
      | (Inr None, d') \<Rightarrow> (Inl (not_found ''Custom field definition''), d')
      | (Inr (Some defn), d') \<Rightarrow> (Inr defn, d'))"

definition updateCustomFieldDefinition ::
  "runtime \<Rightarrow> string \<Rightarrow> jsobj \<Rightarrow> string \<Rightarrow> db \<Rightarrow> (error + jsobj) \<times> db" where
  "updateCustomFieldDefinition rt i data userId d =
     (case repo_findById rt CustomFieldDefinitionRepository i d of
        (Inl e, d1) \<Rightarrow> (Inl e, d1)
      | (Inr None, d1) \<Rightarrow> (Inl (not_found ''Custom field definition''), d1)
      | (Inr (Some existingDefinition), d1) \<Rightarrow>
          repo_update rt CustomFieldDefinitionRepository i data userId d1)"

definition deleteCustomFieldDefinition ::
  "runtime \<Rightarrow> string \<Rightarrow> string \<Rightarrow> db \<Rightarrow> (error + unit) \<times> db" where
  "deleteCustomFieldDefinition rt i userId d =
     (case repo_findById rt CustomFieldDefinitionRepository i d of
        (Inl e, d1) \<Rightarrow> (Inl e, d1)
      | (Inr None, d1) \<Rightarrow> (Inl (not_found ''Custom field definition''), d1)
      | (Inr (Some existingDefinition), d1) \<Rightarrow>
          repo_delete rt CustomFieldDefinitionRepository i userId d1)"

text \<open>
  What a call leaves in the audit trail, comparing the store before (\<open>d\<close>) and after
  (\<open>d'\<close>): exactly one new record, with the given action and user, or none.
\<close>

definition one_audit_record :: "db \<Rightarrow> db \<Rightarrow> string \<Rightarrow> string \<Rightarrow> bool" where
  "one_audit_record d d' action userId \<longleftrightarrow>
     length (audit_rows d') = Suc (length (audit_rows d)) \<and>
     butlast (audit_rows d') = audit_rows d \<and>
     get_prop (last (audit_rows d')) ''action'' = JStr action \<and>
     get_prop (last (audit_rows d')) ''user_id'' = JStr userId"

definition no_audit_record :: "db \<Rightarrow> db \<Rightarrow> bool" where
  "no_audit_record d d' \<longleftrightarrow> audit_rows d' = audit_rows d"

section \<open>Transactions (utils/transaction.ts)\<close>

text \<open>
  The coordinator talks to a pool and to the connection it gets from it. \<open>trace\<close> records
  what the coordinator itself does, in order: acquiring a connection, each statement it
  sends on it, the call of the unit of work, and the release. \<open>answers\<close> holds what the
  pool and the store answer to the coming requests of the coordinator (\<open>None\<close>: done,
  \<open>Some e\<close>: the request fails with \<open>e\<close>; past the end of the list every request is
  done). The unit of work is a function on a state of its own, \<open>work\<close>, that returns a
  result or throws.
\<close>

datatype tx_event = Connect | Query string | RunCallback | Release

record 's tx_world =
  trace :: "tx_event list"
  answers :: "pg_error option list"
  work :: 's

definition take_answer :: "'s tx_world \<Rightarrow> pg_error option \<times> 's tx_world" where
  "take_answer w = (case answers w of [] \<Rightarrow> (None, w) | a # as \<Rightarrow> (a, w\<lparr>answers := as\<rparr>))"

text \<open>\<^verbatim>\<open>pool.connect()\<close>: a connection is acquired, or the call throws.\<close>

definition pool_connect :: "'s tx_world \<Rightarrow> (error + unit) \<times> 's tx_world" where
  "pool_connect w =
     (case take_answer w of
        (Some e, w') \<Rightarrow> (Inl (PgError e), w')
      | (None, w') \<Rightarrow> (Inr (), w'\<lparr>trace := trace w' @ [Connect]\<rparr>))"

text \<open>\<^verbatim>\<open>client.query(sql)\<close> for \<^verbatim>\<open>BEGIN\<close>, \<^verbatim>\<open>COMMIT\<close> and \<^verbatim>\<open>ROLLBACK\<close>.\<close>

definition client_query :: "string \<Rightarrow> 's tx_world \<Rightarrow> (error + unit) \<times> 's tx_world" where
  "client_query sql w =
     (case take_answer (w\<lparr>trace := trace w @ [Query sql]\<rparr>) of
        (Some e, w') \<Rightarrow> (Inl (PgError e), w')
      | (None, w') \<Rightarrow> (Inr (), w'))"

text \<open>\<^verbatim>\<open>callback(client)\<close>.\<close>

definition run_callback ::
  "('s \<Rightarrow> (error + 'a) \<times> 's) \<Rightarrow> 's tx_world \<Rightarrow> (error + 'a) \<times> 's tx_world" where
  "run_callback callback w =
     (case callback (work w) of
        (r, s') \<Rightarrow> (r, w\<lparr>trace := trace w @ [RunCallback], work := s'\<rparr>))"

text \<open>\<^verbatim>\<open>client.release()\<close>.\<close>

definition client_release :: "'s tx_world \<Rightarrow> 's tx_world" where
  "client_release w = w\<lparr>trace := trace w @ [Release]\<rparr>"

text \<open>The \<^verbatim>\<open>try\<close> block, the same in both functions: its value or what it throws.\<close>

definition try_block ::
  "('s \<Rightarrow> (error + 'a) \<times> 's) \<Rightarrow> 's tx_world \<Rightarrow> (error + 'a) \<times> 's tx_world" where
  "try_block callback w =
     (case client_query ''BEGIN'' w of
        (Inl e, w1) \<Rightarrow> (Inl e, w1)
      | (Inr began, w1) \<Rightarrow>
          (case run_callback callback w1 of
             (Inl e, w2) \<Rightarrow> (Inl e, w2)
           | (Inr result, w2) \<Rightarrow>
               (case client_query ''COMMIT'' w2 of
                  (Inl e, w3) \<Rightarrow> (Inl e, w3)
                | (Inr committed, w3) \<Rightarrow> (Inr result, w3))))"

text \<open>
  \<^verbatim>\<open>TransactionManager.executeInTransaction\<close>: the \<^verbatim>\<open>catch\<close> rolls back and throws
  a \<^verbatim>\<open>DatabaseError\<close> around what it caught; if the rollback itself throws, that error
  leaves the \<^verbatim>\<open>catch\<close> instead. The \<^verbatim>\<open>finally\<close> releases in every case.
\<close>

definition executeInTransaction ::
  "('s \<Rightarrow> (error + 'a) \<times> 's) \<Rightarrow> 's tx_world \<Rightarrow> (error + 'a) \<times> 's tx_world" where
  "executeInTransaction callback w =
     (case pool_connect w of
        (Inl e, w0) \<Rightarrow> (Inl e, w0)
      | (Inr client, w0) \<Rightarrow>
          (case (case try_block callback w0 of
                   (Inr result, w1) \<Rightarrow> (Inr result, w1)
                 | (Inl e, w1) \<Rightarrow>
                     (case client_query ''ROLLBACK'' w1 of
                        (Inl e', w2) \<Rightarrow> (Inl e', w2)
                      | (Inr rolled_back, w2) \<Rightarrow>
                          (Inl (DatabaseError ''Transaction failed'' e), w2))) of
             (outcome, w3) \<Rightarrow> (outcome, client_release w3)))"

text \<open>\<^verbatim>\<open>TransactionManager.withTransaction\<close> calls \<^verbatim>\<open>executeInTransaction\<close>.\<close>

definition TransactionManager_withTransaction ::
  "('s \<Rightarrow> (error + 'a) \<times> 's) \<Rightarrow> 's tx_world \<Rightarrow> (error + 'a) \<times> 's tx_world" where
  "TransactionManager_withTransaction operation w = executeInTransaction operation w"

text \<open>The standalone \<^verbatim>\<open>withTransaction(pool, callback)\<close>: the \<^verbatim>\<open>catch\<close> throws what it caught.\<close>

definition withTransaction ::
  "('s \<Rightarrow> (error + 'a) \<times> 's) \<Rightarrow> 's tx_world \<Rightarrow> (error + 'a) \<times> 's tx_world" where
  "withTransaction callback w =
     (case pool_connect w of
        (Inl e, w0) \<Rightarrow> (Inl e, w0)
      | (Inr client, w0) \<Rightarrow>
          (case (case try_block callback w0 of
                   (Inr result, w1) \<Rightarrow> (Inr result, w1)
                 | (Inl e, w1) \<Rightarrow>
                     (case client_query ''ROLLBACK'' w1 of
                        (Inl e', w2) \<Rightarrow> (Inl e', w2)
                      | (Inr rolled_back, w2) \<Rightarrow> (Inl e, w2))) of
             (outcome, w3) \<Rightarrow> (outcome, client_release w3)))"

text \<open>What the coordinator did during a call: the events added to the trace.\<close>

definition new_events :: "'s tx_world \<Rightarrow> 's tx_world \<Rightarrow> tx_event list" where
  "new_events w w' = drop (length (trace w)) (trace w')"

text \<open>The pool hands out a connection: its next answer is not a failure.\<close>

definition connects :: "'s tx_world \<Rightarrow> bool" where
  "connects w = (case answers w of [] \<Rightarrow> True | a # as \<Rightarrow> a = None)"

text \<open>The \<open>n\<close>-th coming answer, \<open>None\<close> past the end of the list.\<close>

fun nth_answer :: "pg_error option list \<Rightarrow> nat \<Rightarrow> pg_error option" where
  "nth_answer [] n = None"
| "nth_answer (a # as) 0 = a"
| "nth_answer (a # as) (Suc n) = nth_answer as n"

definition answer_at :: "'s tx_world \<Rightarrow> nat \<Rightarrow> pg_error option" where
  "answer_at w n = nth_answer (answers w) n"

section \<open>Sample data and the specification's own notions\<close>

text \<open>
  A date constructor for the examples: a Date or a number keeps its time value, null is
  the epoch, a boolean is 0 or 1 ms, and nothing else is a date. The theorems hold for
  every date constructor.
\<close>

definition simpleDate :: "jsval \<Rightarrow> jsnum" where
  "simpleDate v =
     (case v of
        JDate t \<Rightarrow> t
      | JNum n \<Rightarrow> n
      | JNull \<Rightarrow> Finite 0
      | JBool b \<Rightarrow> Finite (if b then 1 else 0)
      | _ \<Rightarrow> NaN)"

definition age_def :: CustomFieldDefinition where
  "age_def = \<lparr> def_id = ''d1'', name = ''age'', label = ''Age'', entityType = ''contact'',
      fieldType = Number, enumValues = None, required = False, createdAt = Finite 0, createdBy = ''admin'' \<rparr>"

definition nick_def :: CustomFieldDefinition where
  "nick_def = \<lparr> def_id = ''d2'', name = ''nick'', label = ''Nickname'', entityType = ''contact'',
      fieldType = Text, enumValues = None, required = False, createdAt = Finite 0, createdBy = ''admin'' \<rparr>"

definition industry_def :: CustomFieldDefinition where
  "industry_def = \<lparr> def_id = ''d3'', name = ''industry'', label = ''Industry'', entityType = ''company'',
      fieldType = Enum, enumValues = Some [''Tech'', ''Retail''], required = True, createdAt = Finite 0, createdBy = ''admin'' \<rparr>"

text \<open>The specification's "finite numeric value".\<close>

definition is_finite_number :: "jsval \<Rightarrow> bool" where
  "is_finite_number v = (case v of JNum (Finite r) \<Rightarrow> True | _ \<Rightarrow> False)"

text \<open>
  An entry of the candidate mapping is rejected when its key has no definition or when
  \<open>validateCustomFieldValue\<close> refuses its value for the definition found.
\<close>

definition rejected :: "(jsval \<Rightarrow> jsnum) \<Rightarrow> CustomFieldDefinition list \<Rightarrow> string \<Rightarrow> jsval \<Rightarrow> bool" where
  "rejected newDate definitions k v =
     (case findDefinition definitions k of
        None \<Rightarrow> True
      | Some defn \<Rightarrow> validateCustomFieldValue newDate defn v \<noteq> Valid)"

text \<open>
  A pool and store that answer every request, and two units of work on a counter: one
  returns the counter and increments it, one throws a validation failure.
\<close>

definition idle_world :: "nat tx_world" where
  "idle_world = \<lparr> trace = [], answers = [], work = 0 \<rparr>"

definition counting_work :: "nat \<Rightarrow> (error + nat) \<times> nat" where
  "counting_work n = (Inr n, Suc n)"

definition failing_work :: "nat \<Rightarrow> (error + nat) \<times> nat" where
  "failing_work n = (Inl (ValidationError ''Invalid input'' [(''title'', [''Required''])]), n)"

text \<open>
  A connection that is lost after the unit of work has run: the pool hands it out,
  \<^verbatim>\<open>BEGIN\<close> is done, and the third request fails with a connection failure.
\<close>

definition connection_failure :: pg_error where
  "connection_failure =
     \<lparr> code = Some ''08006'', detail = None, constraint_name = None, column_name = None \<rparr>"

definition lost_connection_world :: "nat tx_world" where
  "lost_connection_world =
     \<lparr> trace = [], answers = [None, None, Some connection_failure], work = 0 \<rparr>"

text \<open>
  A runtime for the examples: \<open>simpleDate\<close> as the Date constructor, a \<^verbatim>\<open>parseFloat\<close>
  that reads numbers only, a serializer that tells apart the scalar values the examples
  use (undefined has no serialization), and a schema engine that accepts every input as
  it is.
\<close>

definition sample_parseFloat :: "jsval \<Rightarrow> jsnum" where
  "sample_parseFloat v = (case v of JNum n \<Rightarrow> n | _ \<Rightarrow> NaN)"

definition sample_stringify :: "jsval \<Rightarrow> string option" where
  "sample_stringify v =
     (case v of
        JUndefined \<Rightarrow> None
      | JNull \<Rightarrow> Some ''null''
      | JBool b \<Rightarrow> Some (if b then ''true'' else ''false'')
      | JStr s \<Rightarrow> Some ([CHR 0x22] @ s @ [CHR 0x22])
      | _ \<Rightarrow> Some ''{}'')"

definition accept_all :: "schema \<Rightarrow> jsobj \<Rightarrow> error + jsobj" where
  "accept_all sch data = Inr data"

definition sample_rt :: runtime where
  "sample_rt = \<lparr> rt_newDate = simpleDate, rt_parseFloat = sample_parseFloat,
                  rt_stringify = sample_stringify, rt_parse = accept_all \<rparr>"

text \<open>An empty store that executes every statement.\<close>

definition no_rows :: "string \<Rightarrow> jsobj list" where
  "no_rows t = []"

definition empty_db :: db where
  "empty_db = \<lparr> tables = no_rows, faults = [], clock = 0, next_id = 0 \<rparr>"

text \<open>Two errors of the store: a not-null violation on column \<open>name\<close>, a malformed uuid.\<close>

definition not_null_violation :: pg_error where
  "not_null_violation =
     \<lparr> code = Some ''23502'', detail = None, constraint_name = None,
       column_name = Some ''name'' \<rparr>"

definition invalid_uuid :: pg_error where
  "invalid_uuid =
     \<lparr> code = Some ''22P02'', detail = None, constraint_name = None, column_name = None \<rparr>"

text \<open>A company before and after a change of its name.\<close>

definition acme_before :: jsobj where
  "acme_before =
     [(''id'', JStr ''c1''), (''name'', JStr ''Acme''), (''address'', JNull),
      (''updatedAt'', JDate (Finite 1)), (''updatedBy'', JStr ''ann'')]"

definition acme_after :: jsobj where
  "acme_after =
     [(''id'', JStr ''c1''), (''name'', JStr ''Acme Inc''), (''address'', JNull),
      (''updatedAt'', JDate (Finite 2)), (''updatedBy'', JStr ''bob'')]"

text \<open>A store that holds one company, and the input that defines the field \<open>industry\<close>.\<close>

definition acme_row :: jsobj where
  "acme_row =
     [(''id'', JStr ''c1''), (''created_at'', JDate (Finite 1)), (''updated_at'', JDate (Finite 1)),
      (''name'', JStr ''Acme''), (''address'', JNull), (''custom_fields'', JObj []),
      (''created_by'', JStr ''ann''), (''updated_by'', JStr ''ann'')]"

definition acme_tables :: "string \<Rightarrow> jsobj list" where
  "acme_tables t = (if t = ''companies'' then [acme_row] else [])"

definition acme_db :: db where
  "acme_db = \<lparr> tables = acme_tables, faults = [], clock = 5, next_id = 7 \<rparr>"

definition industry_input :: jsobj where
  "industry_input =
     [(''name'', JStr ''industry''), (''label'', JStr ''Industry''),
      (''entityType'', JStr ''company''), (''fieldType'', JStr ''enum''),
      (''enumValues'', JArr [JStr ''Tech'', JStr ''Retail'']), (''required'', JBool True)]"

definition note_input :: jsobj where
  "note_input =
     [(''content'', JStr ''Call back on Monday''), (''entityType'', JStr ''company''),
      (''entityId'', JStr ''c1'')]"

section \<open>Properties of custom field validation\<close>

lemma keys_appendError:
  "set (Object_keys (appendError errors k msg)) = insert k (set (Object_keys errors))"
  by (induction errors k msg rule: appendError.induct) (auto simp: Object_keys_def)

lemma pushError_Inr:
  "pushError errors k msg = Inr errors' \<longleftrightarrow>
     k \<notin> set Object_prototype_names \<and> errors' = appendError errors k msg"
  by (auto simp: pushError_def)

lemma pushError_Inl:
  "pushError errors k msg = Inl e \<longleftrightarrow>
     k \<in> set Object_prototype_names \<and> e = TypeError ''errors[fieldName].push is not a function''"
  by (auto simp: pushError_def)

lemma validateProvided_Cons:
  "validateProvided vd defs ((k, v) # entries) errors =
     (if rejected vd defs k v
      then (if k \<in> set Object_prototype_names
            then Inl (TypeError ''errors[fieldName].push is not a function'')
            else validateProvided vd defs entries
                   (appendError errors k
                      (case findDefinition defs k of
                         None \<Rightarrow> ''Unknown custom field: '' @ k
                       | Some d \<Rightarrow> (case validateCustomFieldValue vd d v of
                                     Invalid msg \<Rightarrow> msg | Valid \<Rightarrow> []))))
      else validateProvided vd defs entries errors)"
  by (simp add: rejected_def pushError_def split: option.splits validation.splits)

lemma keys_validateProvided:
  "validateProvided vd defs entries errors = Inr errors' \<Longrightarrow>
   set (Object_keys errors') =
     set (Object_keys errors) \<union> {k. \<exists>v. (k, v) \<in> set entries \<and> rejected vd defs k v}"
proof (induction entries arbitrary: errors)
  case Nil
  then show ?case by simp
next
  case (Cons e entries)
  obtain k v where e: "e = (k, v)" by (cases e)
  show ?case
  proof (cases "rejected vd defs k v")
    case True
    with Cons.prems have notin: "k \<notin> set Object_prototype_names"
      unfolding e validateProvided_Cons by (auto split: if_splits)
    from Cons.prems True notin obtain m where
      "validateProvided vd defs entries (appendError errors k m) = Inr errors'"
      unfolding e validateProvided_Cons by simp
    from Cons.IH[OF this] True show ?thesis
      unfolding e by (auto simp: keys_appendError)
  next
    case False
    with Cons.prems have "validateProvided vd defs entries errors = Inr errors'"
      unfolding e validateProvided_Cons by simp
    from Cons.IH[OF this] False show ?thesis
      unfolding e by auto
  qed
qed

lemma validateProvided_throws:
  "validateProvided vd defs entries errors = Inl e \<Longrightarrow>
   e = TypeError ''errors[fieldName].push is not a function'' \<and>
   (\<exists>k v. (k, v) \<in> set entries \<and> rejected vd defs k v \<and> k \<in> set Object_prototype_names)"
proof (induction entries arbitrary: errors)
  case Nil
  then show ?case by simp
next
  case (Cons x entries)
  obtain k v where x: "x = (k, v)" by (cases x)
  show ?case
  proof (cases "rejected vd defs k v \<and> k \<in> set Object_prototype_names")
    case True
    with Cons.prems show ?thesis
      unfolding x validateProvided_Cons by auto
  next
    case False
    then obtain errors1 where "validateProvided vd defs entries errors1 = Inl e"
      using Cons.prems unfolding x validateProvided_Cons by (auto split: if_splits)
    from Cons.IH[OF this] show ?thesis
      unfolding x by auto
  qed
qed

lemma validateProvided_returns:
  "(\<And>k v. (k, v) \<in> set entries \<Longrightarrow> rejected vd defs k v \<Longrightarrow>
      k \<notin> set Object_prototype_names) \<Longrightarrow>
   \<exists>errors'. validateProvided vd defs entries errors = Inr errors'"
  by (cases "validateProvided vd defs entries errors")
     (auto dest: validateProvided_throws)

lemma checkRequired_returns:
  "\<exists>errors'. checkRequired defs cf errors = Inr errors'"
  by (induction defs arbitrary: errors) (auto simp: pushError_def js_in_def)

lemma keys_checkRequired:
  "checkRequired defs cf errors = Inr errors' \<Longrightarrow>
   set (Object_keys errors') =
     set (Object_keys errors) \<union>
     {name d |d. d \<in> set defs \<and> required d \<and> \<not> js_in (name d) cf}"
proof (induction defs arbitrary: errors)
  case Nil
  then show ?case by simp
next
  case (Cons d defs)
  show ?case
  proof (cases "required d \<and> \<not> js_in (name d) cf")
    case True
    then have "name d \<notin> set Object_prototype_names" by (simp add: js_in_def)
    with Cons.prems True have
      "checkRequired defs cf (appendError errors (name d)
          (''Required field '' @ apos @ label d @ apos @ '' is missing'')) = Inr errors'"
      by (simp add: pushError_def)
    from Cons.IH[OF this] True show ?thesis
      by (auto simp: keys_appendError)
  next
    case False
    with Cons.prems have "checkRequired defs cf errors = Inr errors'" by auto
    from Cons.IH[OF this] False show ?thesis by auto
  qed
qed

text \<open>
  What \<open>validateCustomFields\<close> returns: the TypeError of the first loop, or else a
  ValidationError with the collected errors when there is one, or else nothing.
\<close>

lemma validateCustomFields_throws:
  assumes a: "validateCustomFields vd defs cf = Inl e"
  shows "(e = TypeError ''errors[fieldName].push is not a function'' \<and>
    (\<exists>k v. (k, v) \<in> set cf \<and> rejected vd defs k v \<and> k \<in> set Object_prototype_names)) \<or>
   (\<exists>errors. e = ValidationError ''Custom field validation failed'' errors \<and>
      errors \<noteq> [] \<and>
      set (Object_keys errors) =
        {k. \<exists>v. (k, v) \<in> set cf \<and> rejected vd defs k v} \<union>
        {name d |d. d \<in> set defs \<and> required d \<and> \<not> js_in (name d) cf})"
proof (cases "validateProvided vd defs cf []")
  case (Inl e')
  from validateProvided_throws[OF Inl] Inl a show ?thesis
    by (auto simp: validateCustomFields_def)
next
  case (Inr provided)
  obtain errors where c: "checkRequired defs cf provided = Inr errors"
    using checkRequired_returns by blast
  have "set (Object_keys errors) =
      {k. \<exists>v. (k, v) \<in> set cf \<and> rejected vd defs k v} \<union>
      {name d |d. d \<in> set defs \<and> required d \<and> \<not> js_in (name d) cf}"
    using keys_validateProvided[OF Inr] keys_checkRequired[OF c]
    by (simp add: Object_keys_def)
  then show ?thesis
    using a Inr c by (auto simp: validateCustomFields_def Object_keys_def split: if_splits)
qed

lemma validateCustomFields_succeeds:
  "validateCustomFields vd defs cf = Inr u \<Longrightarrow>
   {k. \<exists>v. (k, v) \<in> set cf \<and> rejected vd defs k v} = {} \<and>
   {name d |d. d \<in> set defs \<and> required d \<and> \<not> js_in (name d) cf} = {}"
proof -
  assume a: "validateCustomFields vd defs cf = Inr u"
  then obtain provided where p: "validateProvided vd defs cf [] = Inr provided"
    by (cases "validateProvided vd defs cf []") (auto simp: validateCustomFields_def)
  obtain errors where c: "checkRequired defs cf provided = Inr errors"
    using checkRequired_returns by blast
  have keys: "set (Object_keys errors) =
      {k. \<exists>v. (k, v) \<in> set cf \<and> rejected vd defs k v} \<union>
      {name d |d. d \<in> set defs \<and> required d \<and> \<not> js_in (name d) cf}"
    using keys_validateProvided[OF p] keys_checkRequired[OF c]
    by (simp add: Object_keys_def)
  have "set (Object_keys errors) = {}"
    using a p c by (auto simp: validateCustomFields_def Object_keys_def split: if_splits)
  with keys show ?thesis by simp
qed

text \<open>
  The two inputs on which an inherited property name decides the outcome. A candidate
  key \<open>constructor\<close> without a definition: the validation throws a TypeError, not a
  ValidationError. A required definition named \<open>toString\<close> and an empty candidate mapping:
  the validation reports nothing.
\<close>

lemma validateCustomFields_inherited_key_throws_TypeError:
  "validateCustomFields simpleDate [] [(''constructor'', JNum (Finite 1))] =
     Inl (TypeError ''errors[fieldName].push is not a function'')"
  by (simp add: validateCustomFields_def findDefinition_def pushError_def
        Object_prototype_names_def)

lemma validateCustomFields_inherited_required_name_is_not_reported:
  "validateCustomFields simpleDate [nick_def\<lparr>name := ''toString'', required := True\<rparr>] [] =
     Inr ()"
  by (simp add: validateCustomFields_def js_in_def Object_prototype_names_def
        Object_keys_def)

text \<open>
  Claim C1, as the code has it, on the inputs where no candidate key and no required
  definition's name is a property name inherited from \<^verbatim>\<open>Object.prototype\<close>.
  \<open>validateCustomFields\<close> fails if and only if some candidate key has no definition of
  that name, or \<open>validateCustomFieldValue\<close> refuses some candidate value for the
  definition found under its key, or some required definition's name is absent from the
  candidate mapping. On failure the error is a ValidationError whose field mapping has
  an entry under exactly these names, so every problem is reported at once. The function
  is pure: it returns a value and changes nothing. The per-value test is the whole of
  \<open>validateCustomFieldValue\<close>: a null or undefined value is refused exactly when the
  definition is required, and only another value reaches the check of the field kind.
\<close>

theorem validateCustomFields_reports_all_errors:
  assumes keys_own: "\<forall>k \<in> set (Object_keys cf). k \<notin> set Object_prototype_names"
    and names_own: "\<forall>d \<in> set defs. required d \<longrightarrow> name d \<notin> set Object_prototype_names"
  shows
  "((\<exists>e. validateCustomFields vd defs cf = Inl e) \<longleftrightarrow>
      (\<exists>(k, v) \<in> set cf. findDefinition defs k = None) \<or>
      (\<exists>(k, v) \<in> set cf. \<exists>d. findDefinition defs k = Some d \<and>
           validateCustomFieldValue vd d v \<noteq> Valid) \<or>
      (\<exists>d \<in> set defs. required d \<and> \<not> has_key (name d) cf))
   \<and> (\<forall>e. validateCustomFields vd defs cf = Inl e \<longrightarrow>
         (\<exists>errors. e = ValidationError ''Custom field validation failed'' errors \<and>
            set (Object_keys errors) =
              {k. \<exists>v. (k, v) \<in> set cf \<and> findDefinition defs k = None} \<union>
              {k. \<exists>v d. (k, v) \<in> set cf \<and> findDefinition defs k = Some d \<and>
                     validateCustomFieldValue vd d v \<noteq> Valid} \<union>
              {name d |d. d \<in> set defs \<and> required d \<and> \<not> has_key (name d) cf}))"
proof -
  let ?R = "{k. \<exists>v. (k, v) \<in> set cf \<and> rejected vd defs k v}"
  let ?M = "{name d |d. d \<in> set defs \<and> required d \<and> \<not> js_in (name d) cf}"
  let ?K = "{k. \<exists>v. (k, v) \<in> set cf \<and> findDefinition defs k = None} \<union>
      {k. \<exists>v d. (k, v) \<in> set cf \<and> findDefinition defs k = Some d \<and>
             validateCustomFieldValue vd d v \<noteq> Valid} \<union>
      {name d |d. d \<in> set defs \<and> required d \<and> \<not> has_key (name d) cf}"
  have rej: "?R =
      {k. \<exists>v. (k, v) \<in> set cf \<and> findDefinition defs k = None} \<union>
      {k. \<exists>v d. (k, v) \<in> set cf \<and> findDefinition defs k = Some d \<and>
             validateCustomFieldValue vd d v \<noteq> Valid}"
    by (auto simp: rejected_def split: option.splits)
  have mis: "?M = {name d |d. d \<in> set defs \<and> required d \<and> \<not> has_key (name d) cf}"
    using names_own by (auto simp: js_in_def)
  have K: "?R \<union> ?M = ?K"
    unfolding rej mis by (rule refl)
  have no_type_error: "\<not> (\<exists>k v. (k, v) \<in> set cf \<and> rejected vd defs k v \<and>
      k \<in> set Object_prototype_names)"
    using keys_own by (force simp: Object_keys_def)
  have thrown: "\<exists>errors. e = ValidationError ''Custom field validation failed'' errors \<and>
      errors \<noteq> [] \<and> set (Object_keys errors) = ?K"
    if "validateCustomFields vd defs cf = Inl e" for e
    using validateCustomFields_throws[OF that] no_type_error unfolding K by blast
  have c: "\<forall>e. validateCustomFields vd defs cf = Inl e \<longrightarrow>
      (\<exists>errors. e = ValidationError ''Custom field validation failed'' errors \<and>
         set (Object_keys errors) = ?K)"
    using thrown by blast
  have a: "(\<exists>e. validateCustomFields vd defs cf = Inl e) \<longleftrightarrow> ?K \<noteq> {}"
  proof
    assume "\<exists>e. validateCustomFields vd defs cf = Inl e"
    then obtain e where e: "validateCustomFields vd defs cf = Inl e" ..
    from thrown[OF e] obtain errors where
      0: "e = ValidationError ''Custom field validation failed'' errors" and
      1: "errors \<noteq> []" and 2: "set (Object_keys errors) = ?K" by (elim exE conjE)
    from 1 have "set (Object_keys errors) \<noteq> {}" by (simp add: Object_keys_def)
    with 2 show "?K \<noteq> {}" by simp
  next
    assume ne: "?K \<noteq> {}"
    show "\<exists>e. validateCustomFields vd defs cf = Inl e"
    proof (cases "validateCustomFields vd defs cf")
      case (Inl e)
      then show ?thesis by blast
    next
      case (Inr u)
      from validateCustomFields_succeeds[OF Inr] have eq: "?R \<union> ?M = {}" by simp
      have "?K = {}" by (rule trans[OF K[symmetric] eq])
      with ne show ?thesis by (rule notE)
    qed
  qed
  have b: "?K \<noteq> {} \<longleftrightarrow>
      (\<exists>(k, v) \<in> set cf. findDefinition defs k = None) \<or>
      (\<exists>(k, v) \<in> set cf. \<exists>d. findDefinition defs k = Some d \<and>
           validateCustomFieldValue vd d v \<noteq> Valid) \<or>
      (\<exists>d \<in> set defs. required d \<and> \<not> has_key (name d) cf)"
    by blast
  show ?thesis by (rule conjI[OF trans[OF a b] c])
qed

text \<open>
  An instance: with the definitions \<open>industry\<close> (enum, required) and \<open>age\<close> (number), the
  mapping \<open>{age: "x", nick: 1}\<close> fails with entries under \<open>age\<close> (wrong type), \<open>nick\<close>
  (unknown) and \<open>industry\<close> (required, missing).
\<close>

theorem validateCustomFields_reports_all_errors_witness:
  "\<exists>errors. validateCustomFields simpleDate [industry_def, age_def]
       [(''age'', JStr ''x''), (''nick'', JNum (Finite 1))] =
     Inl (ValidationError ''Custom field validation failed'' errors) \<and>
     set (Object_keys errors) = {''age'', ''nick'', ''industry''}"
proof -
  let ?defs = "[industry_def, age_def]"
  let ?cf = "[(''age'', JStr ''x''), (''nick'', JNum (Finite 1))]"
  have f: "findDefinition ?defs k =
      (if k = ''industry'' then Some industry_def
       else if k = ''age'' then Some age_def else None)" for k
    by (simp add: findDefinition_def industry_def_def age_def_def)
  have bad: "validateCustomFieldValue simpleDate age_def (JStr ''x'') \<noteq> Valid"
    by (simp add: validateCustomFieldValue_def kindCheck_def age_def_def)
  have s1: "{k. \<exists>v. (k, v) \<in> set ?cf \<and> findDefinition ?defs k = None} = {''nick''}"
    by (auto simp: f)
  have s2: "{k. \<exists>v d. (k, v) \<in> set ?cf \<and> findDefinition ?defs k = Some d \<and>
               validateCustomFieldValue simpleDate d v \<noteq> Valid} = {''age''}"
    using bad by (auto simp: f split: if_splits)
  have s3: "{name d |d. d \<in> set ?defs \<and> required d \<and> \<not> has_key (name d) ?cf} =
      {''industry''}"
  proof -
    have r: "required industry_def" "name industry_def = ''industry''"
      "name age_def = ''age''" "\<not> required age_def"
      by (simp_all add: industry_def_def age_def_def)
    show ?thesis
      using r by (auto simp: has_key_def Object_keys_def intro: exI[of _ industry_def])
  qed
  have unknown: "\<exists>(k, v) \<in> set ?cf. findDefinition ?defs k = None"
    by (simp add: f)
  have h1: "\<forall>k \<in> set (Object_keys ?cf). k \<notin> set Object_prototype_names"
    by (simp add: Object_keys_def Object_prototype_names_def)
  have h2: "\<forall>d \<in> set ?defs. required d \<longrightarrow> name d \<notin> set Object_prototype_names"
    by (simp add: industry_def_def age_def_def Object_prototype_names_def)
  note inst = validateCustomFields_reports_all_errors[OF h1 h2, of simpleDate]
  from inst[THEN conjunct1] unknown
  obtain e where e: "validateCustomFields simpleDate ?defs ?cf = Inl e"
    by blast
  from inst[THEN conjunct2, rule_format, OF e]
  obtain errors where 1: "e = ValidationError ''Custom field validation failed'' errors"
    and 2: "set (Object_keys errors) = {''nick''} \<union> {''age''} \<union> {''industry''}"
    unfolding s1 s2 s3 by (elim exE conjE)
  have "set (Object_keys errors) = {''age'', ''nick'', ''industry''}"
    unfolding 2 by (rule set_eqI) blast
  with e 1 show ?thesis by (intro exI[of _ errors]) simp
qed

text \<open>
  Claim C1 as the specification words it, with the check of the field kind as the test of
  a value, fails: for the optional text field \<open>nick\<close> the mapping \<open>{nick: null}\<close> is
  accepted, although its key has a definition whose kind check refuses null (null is not
  a string) and no required definition exists.
\<close>

theorem validateCustomFields_accepts_null_failing_kind_check:
  "validateCustomFields simpleDate [nick_def] [(''nick'', JNull)] = Inr () \<and>
   findDefinition [nick_def] ''nick'' = Some nick_def \<and>
   kindCheck simpleDate nick_def JNull \<noteq> Valid"
  by (simp add: validateCustomFields_def validateCustomFieldValue_def kindCheck_def
        findDefinition_def nick_def_def Object_keys_def)

text \<open>
  Claim C7, as the code has it. For a definition of kind number, a value is accepted if
  and only if it is a number other than NaN (a finite number or one of the two
  infinities), or it is null or undefined and the definition is not required. NaN is
  always rejected.
\<close>

theorem number_field_accepts_exactly_non_NaN_numbers:
  "fieldType defn = Number \<Longrightarrow>
     ((validateCustomFieldValue vd defn v = Valid) \<longleftrightarrow>
        ((\<exists>n. v = JNum n \<and> n \<noteq> NaN) \<or>
         ((v = JNull \<or> v = JUndefined) \<and> \<not> required defn)))
     \<and> validateCustomFieldValue vd defn (JNum NaN) \<noteq> Valid"
  by (cases v) (auto simp: validateCustomFieldValue_def kindCheck_def)

theorem number_field_accepts_exactly_non_NaN_numbers_witness:
  "validateCustomFieldValue simpleDate age_def (JNum (Finite 42)) = Valid \<and>
   validateCustomFieldValue simpleDate age_def (JNum NaN) \<noteq> Valid"
proof -
  have k: "fieldType age_def = Number" by (simp add: age_def_def)
  from number_field_accepts_exactly_non_NaN_numbers[OF k, of simpleDate "JNum (Finite 42)"]
  show ?thesis by simp
qed

text \<open>
  Claim C7 as the specification words it (accepted if and only if finite) fails: positive
  infinity is not a finite number, and the number field \<open>age\<close> accepts it.
\<close>

theorem number_field_accepts_infinity:
  "validateCustomFieldValue simpleDate age_def (JNum PosInfinity) = Valid \<and>
   \<not> is_finite_number (JNum PosInfinity)"
  by (simp add: validateCustomFieldValue_def kindCheck_def age_def_def is_finite_number_def)

text \<open>
  Claim C9. For a definition that is not required, of any field kind, a null or undefined
  value is accepted by \<open>validateCustomFieldValue\<close> without reaching the check of the
  kind; a mapping holding just that key with such a value validates; and in any mapping
  (an object, so with distinct keys) that holds the key with such a value, a failure of
  the whole validation carries no error under that key.
\<close>

theorem null_value_bypasses_kind_check:
  assumes "\<not> required defn" and "v = JNull \<or> v = JUndefined"
  shows "validateCustomFieldValue vd defn v = Valid \<and>
         validateCustomFields vd [defn] [(name defn, v)] = Inr () \<and>
         (\<forall>defs cf k m errors.
            findDefinition defs k = Some defn \<and> (k, v) \<in> set cf \<and>
            distinct (Object_keys cf) \<and>
            validateCustomFields vd defs cf = Inl (ValidationError m errors)
            \<longrightarrow> \<not> has_key k errors)"
proof -
  have val: "validateCustomFieldValue vd defn v = Valid"
    using assms by (auto simp: validateCustomFieldValue_def)
  have single: "validateCustomFields vd [defn] [(name defn, v)] = Inr ()"
    using val assms(1)
    by (simp add: validateCustomFields_def findDefinition_def Object_keys_def)
  have general: "\<not> has_key k errors"
    if f: "findDefinition defs k = Some defn" and mem: "(k, v) \<in> set cf"
      and d: "distinct (Object_keys cf)"
      and r: "validateCustomFields vd defs cf = Inl (ValidationError m errors)"
    for defs cf k m errors
  proof -
    have errs: "set (Object_keys errors) =
        {k. \<exists>v. (k, v) \<in> set cf \<and> rejected vd defs k v} \<union>
        {name d |d. d \<in> set defs \<and> required d \<and> \<not> js_in (name d) cf}"
      using validateCustomFields_throws[OF r] by simp
    have only: "v' = v" if "(k, v') \<in> set cf" for v'
      using d mem that by (metis Object_keys_def eq_key_imp_eq_value)
    have "\<not> rejected vd defs k v"
      using f val by (simp add: rejected_def)
    then have 1: "k \<notin> {k. \<exists>v. (k, v) \<in> set cf \<and> rejected vd defs k v}"
      using only by auto
    have "has_key k cf"
      using mem by (force simp: has_key_def Object_keys_def)
    then have 2: "k \<notin> {name d |d. d \<in> set defs \<and> required d \<and> \<not> js_in (name d) cf}"
      by (auto simp: js_in_def)
    show ?thesis
      using 1 2 unfolding has_key_def errs by simp
  qed
  show ?thesis using val single general by blast
qed

theorem null_value_bypasses_kind_check_witness:
  "validateCustomFieldValue simpleDate nick_def JNull = Valid \<and>
   validateCustomFields simpleDate [nick_def] [(name nick_def, JNull)] = Inr ()"
proof -
  have "\<not> required nick_def" by (simp add: nick_def_def)
  from null_value_bypasses_kind_check[OF this, of JNull simpleDate] show ?thesis by simp
qed

section \<open>Properties of the transaction coordinator\<close>

lemma nth_answer_tl [simp]: "nth_answer (tl as) n = nth_answer as (Suc n)"
  by (cases as) simp_all

lemma take_answer_eq:
  "take_answer w = (nth_answer (answers w) 0, w\<lparr>answers := tl (answers w)\<rparr>)"
  by (cases "answers w") (simp_all add: take_answer_def)

lemma connects_eq: "connects w \<longleftrightarrow> nth_answer (answers w) 0 = None"
  by (cases "answers w") (simp_all add: connects_def)

lemma pool_connect_eq:
  "pool_connect w =
     (case nth_answer (answers w) 0 of
        Some e \<Rightarrow> (Inl (PgError e), w\<lparr>answers := tl (answers w)\<rparr>)
      | None \<Rightarrow> (Inr (), w\<lparr>answers := tl (answers w), trace := trace w @ [Connect]\<rparr>))"
  by (simp add: pool_connect_def take_answer_eq split: option.splits)

lemma client_query_eq:
  "client_query sql w =
     (case nth_answer (answers w) 0 of
        Some e \<Rightarrow>
          (Inl (PgError e), w\<lparr>trace := trace w @ [Query sql], answers := tl (answers w)\<rparr>)
      | None \<Rightarrow>
          (Inr (), w\<lparr>trace := trace w @ [Query sql], answers := tl (answers w)\<rparr>))"
  by (simp add: client_query_def take_answer_eq split: option.splits)

lemmas tx_unfold =
  try_block_def pool_connect_eq client_query_eq run_callback_def client_release_def
  connects_eq answer_at_def numeral_2_eq_2 numeral_3_eq_3

lemma new_events_append: "trace w' = trace w @ ev \<Longrightarrow> new_events w w' = ev"
  by (simp add: new_events_def)

text \<open>
  The whole of a call of \<^verbatim>\<open>executeInTransaction\<close>, read off the answers of the pool
  and the store and the outcome of the unit of work: what it throws or returns, the
  events it adds to the trace, and the state of the unit of work afterwards.
\<close>

lemma executeInTransaction_outcome:
  assumes cb: "callback (work w) = (r, s')"
    and run: "executeInTransaction callback w = (out, w')"
  shows "(case answer_at w 0 of
            Some ce \<Rightarrow> out = Inl (PgError ce) \<and> trace w' = trace w \<and> work w' = work w
          | None \<Rightarrow>
             (case answer_at w 1 of
                Some be \<Rightarrow>
                  trace w' = trace w @ [Connect, Query ''BEGIN'', Query ''ROLLBACK'', Release] \<and>
                  work w' = work w \<and>
                  out = (case answer_at w 2 of
                           Some re \<Rightarrow> Inl (PgError re)
                         | None \<Rightarrow> Inl (DatabaseError ''Transaction failed'' (PgError be)))
              | None \<Rightarrow>
                 (case r of
                    Inl e \<Rightarrow>
                      trace w' = trace w @
                        [Connect, Query ''BEGIN'', RunCallback, Query ''ROLLBACK'', Release] \<and>
                      work w' = s' \<and>
                      out = (case answer_at w 2 of
                               Some re \<Rightarrow> Inl (PgError re)
                             | None \<Rightarrow> Inl (DatabaseError ''Transaction failed'' e))
                  | Inr x \<Rightarrow>
                     (case answer_at w 2 of
                        None \<Rightarrow>
                          trace w' = trace w @
                            [Connect, Query ''BEGIN'', RunCallback, Query ''COMMIT'', Release] \<and>
                          work w' = s' \<and> out = Inr x
                      | Some ce \<Rightarrow>
                          trace w' = trace w @
                            [Connect, Query ''BEGIN'', RunCallback, Query ''COMMIT'',
                             Query ''ROLLBACK'', Release] \<and>
                          work w' = s' \<and>
                          out = (case answer_at w 3 of
                                   Some re \<Rightarrow> Inl (PgError re)
                                 | None \<Rightarrow>
                                     Inl (DatabaseError ''Transaction failed'' (PgError ce)))))))"
  using cb run
  by (auto simp: executeInTransaction_def tx_unfold
        split: option.splits sum.splits prod.splits)

text \<open>The same for the standalone \<^verbatim>\<open>withTransaction\<close>, which throws what it caught.\<close>

lemma withTransaction_outcome:
  assumes cb: "callback (work w) = (r, s')"
    and run: "withTransaction callback w = (out, w')"
  shows "(case answer_at w 0 of
            Some ce \<Rightarrow> out = Inl (PgError ce) \<and> trace w' = trace w \<and> work w' = work w
          | None \<Rightarrow>
             (case answer_at w 1 of
                Some be \<Rightarrow>
                  trace w' = trace w @ [Connect, Query ''BEGIN'', Query ''ROLLBACK'', Release] \<and>
                  work w' = work w \<and>
                  out = (case answer_at w 2 of
                           Some re \<Rightarrow> Inl (PgError re)
                         | None \<Rightarrow> Inl (PgError be))
              | None \<Rightarrow>
                 (case r of
                    Inl e \<Rightarrow>
                      trace w' = trace w @
                        [Connect, Query ''BEGIN'', RunCallback, Query ''ROLLBACK'', Release] \<and>
                      work w' = s' \<and>
                      out = (case answer_at w 2 of
                               Some re \<Rightarrow> Inl (PgError re)
                             | None \<Rightarrow> Inl e)
                  | Inr x \<Rightarrow>
                     (case answer_at w 2 of
                        None \<Rightarrow>
                          trace w' = trace w @
                            [Connect, Query ''BEGIN'', RunCallback, Query ''COMMIT'', Release] \<and>
                          work w' = s' \<and> out = Inr x
                      | Some ce \<Rightarrow>
                          trace w' = trace w @
                            [Connect, Query ''BEGIN'', RunCallback, Query ''COMMIT'',
                             Query ''ROLLBACK'', Release] \<and>
                          work w' = s' \<and>
                          out = (case answer_at w 3 of
                                   Some re \<Rightarrow> Inl (PgError re)
                                 | None \<Rightarrow> Inl (PgError ce))))))"
  using cb run
  by (auto simp: withTransaction_def tx_unfold
        split: option.splits sum.splits prod.splits)

text \<open>
  Claim C5. Let \<open>run\<close> be \<^verbatim>\<open>executeInTransaction\<close>, \<^verbatim>\<open>TransactionManager.withTransaction\<close>
  or the standalone \<^verbatim>\<open>withTransaction\<close>, let the unit of work started in the current
  state return or throw \<open>r\<close> and leave the state \<open>s'\<close>, and let a call of \<open>run\<close> end with
  the outcome \<open>out\<close> in the world \<open>w'\<close>. The call only adds events to the trace, and the
  added events are exactly these. If the pool hands out no connection: none, the unit of
  work has not run and the call throws. If \<^verbatim>\<open>BEGIN\<close> fails: connect, \<^verbatim>\<open>BEGIN\<close>,
  \<^verbatim>\<open>ROLLBACK\<close>, release; the unit of work has not run and the call throws. If \<^verbatim>\<open>BEGIN\<close>
  is done and the unit of work throws: connect, \<^verbatim>\<open>BEGIN\<close>, the unit of work,
  \<^verbatim>\<open>ROLLBACK\<close>, release, with no \<^verbatim>\<open>COMMIT\<close>; the call throws. If the unit of work
  returns \<open>x\<close>: connect, \<^verbatim>\<open>BEGIN\<close>, the unit of work, \<^verbatim>\<open>COMMIT\<close>, release, and the
  call returns \<open>x\<close>; or, if the commit fails, \<^verbatim>\<open>COMMIT\<close> is followed by \<^verbatim>\<open>ROLLBACK\<close>
  before the release and the call throws. Whenever the unit of work has run, it has run
  once, after \<^verbatim>\<open>BEGIN\<close>, from the state it was given, and its state is the one it
  left. So one connection is acquired, \<^verbatim>\<open>BEGIN\<close> precedes the unit of work, \<^verbatim>\<open>COMMIT\<close>
  is sent if and only if the unit of work returned, \<^verbatim>\<open>ROLLBACK\<close> is sent on every
  failure, and the connection acquired is released exactly once, last, on every path.
\<close>

theorem transaction_follows_protocol:
  assumes run: "run = executeInTransaction \<or> run = TransactionManager_withTransaction \<or>
      run = withTransaction"
    and cb: "callback (work w) = (r, s')"
    and res: "run callback w = (out, w')"
  shows "trace w' = trace w @ new_events w w' \<and>
    (\<not> connects w \<longrightarrow> new_events w w' = [] \<and> work w' = work w \<and> isl out) \<and>
    (connects w \<and> answer_at w 1 \<noteq> None \<longrightarrow>
       new_events w w' = [Connect, Query ''BEGIN'', Query ''ROLLBACK'', Release] \<and>
       work w' = work w \<and> isl out) \<and>
    (connects w \<and> answer_at w 1 = None \<longrightarrow>
       (case r of
          Inl e \<Rightarrow>
            new_events w w' =
              [Connect, Query ''BEGIN'', RunCallback, Query ''ROLLBACK'', Release] \<and>
            work w' = s' \<and> isl out
        | Inr x \<Rightarrow>
            (case answer_at w 2 of
               None \<Rightarrow>
                 new_events w w' =
                   [Connect, Query ''BEGIN'', RunCallback, Query ''COMMIT'', Release] \<and>
                 work w' = s' \<and> out = Inr x
             | Some ce \<Rightarrow>
                 new_events w w' =
                   [Connect, Query ''BEGIN'', RunCallback, Query ''COMMIT'',
                    Query ''ROLLBACK'', Release] \<and>
                 work w' = s' \<and> isl out)))"
proof -
  have managed: ?thesis if "executeInTransaction callback w = (out, w')"
    using executeInTransaction_outcome[OF cb that]
    by (auto simp: connects_eq answer_at_def new_events_def split: option.splits sum.splits)
  have standalone: ?thesis if "withTransaction callback w = (out, w')"
    using withTransaction_outcome[OF cb that]
    by (auto simp: connects_eq answer_at_def new_events_def split: option.splits sum.splits)
  from run show ?thesis
  proof (elim disjE)
    assume "run = executeInTransaction"
    with res show ?thesis by (intro managed) simp
  next
    assume "run = TransactionManager_withTransaction"
    with res show ?thesis
      by (intro managed) (simp add: TransactionManager_withTransaction_def)
  next
    assume "run = withTransaction"
    with res show ?thesis by (intro standalone) simp
  qed
qed

text \<open>
  Two instances without failures of the store: the counting unit of work is committed
  and its result returned, the failing one is rolled back.
\<close>

theorem transaction_follows_protocol_witness:
  "new_events idle_world (snd (executeInTransaction counting_work idle_world)) =
     [Connect, Query ''BEGIN'', RunCallback, Query ''COMMIT'', Release] \<and>
   fst (executeInTransaction counting_work idle_world) = Inr 0 \<and>
   work (snd (executeInTransaction counting_work idle_world)) = 1 \<and>
   new_events idle_world (snd (withTransaction failing_work idle_world)) =
     [Connect, Query ''BEGIN'', RunCallback, Query ''ROLLBACK'', Release] \<and>
   isl (fst (withTransaction failing_work idle_world))"
proof -
  have c: "connects idle_world"
    by (simp add: connects_def idle_world_def)
  have b: "answer_at idle_world 1 = None" "answer_at idle_world 2 = None"
    by (simp_all add: answer_at_def idle_world_def)
  have cw: "counting_work (work idle_world) = (Inr 0, 1)"
    by (simp add: counting_work_def idle_world_def)
  have fw: "failing_work (work idle_world) =
      (Inl (ValidationError ''Invalid input'' [(''title'', [''Required''])]), 0)"
    by (simp add: failing_work_def idle_world_def)
  have 1: "executeInTransaction counting_work idle_world =
      (fst (executeInTransaction counting_work idle_world),
       snd (executeInTransaction counting_work idle_world))"
    by simp
  have 2: "withTransaction failing_work idle_world =
      (fst (withTransaction failing_work idle_world),
       snd (withTransaction failing_work idle_world))"
    by simp
  from transaction_follows_protocol[OF disjI1[OF refl] cw 1]
       transaction_follows_protocol[OF disjI2[OF disjI2[OF refl]] fw 2] c b
  show ?thesis by simp
qed

text \<open>
  Claim C10 as the specification words it fails when the rollback fails. On a connection
  that is lost after \<^verbatim>\<open>BEGIN\<close>, the unit of work throws a validation failure, and both
  \<^verbatim>\<open>executeInTransaction\<close> and the standalone \<^verbatim>\<open>withTransaction\<close> throw the error of
  \<^verbatim>\<open>ROLLBACK\<close>: neither a \<^verbatim>\<open>DatabaseError\<close> around the validation failure nor the
  validation failure itself.
\<close>

theorem rollback_failure_replaces_original_error:
  "fst (failing_work (work lost_connection_world)) =
     Inl (ValidationError ''Invalid input'' [(''title'', [''Required''])]) \<and>
   fst (executeInTransaction failing_work lost_connection_world) =
     Inl (PgError connection_failure) \<and>
   fst (executeInTransaction failing_work lost_connection_world) \<noteq>
     Inl (DatabaseError ''Transaction failed''
            (ValidationError ''Invalid input'' [(''title'', [''Required''])])) \<and>
   fst (withTransaction failing_work lost_connection_world) =
     Inl (PgError connection_failure) \<and>
   fst (withTransaction failing_work lost_connection_world) \<noteq>
     Inl (ValidationError ''Invalid input'' [(''title'', [''Required''])])"
  by (simp add: executeInTransaction_def withTransaction_def try_block_def pool_connect_def
        client_query_def run_callback_def client_release_def take_answer_def
        failing_work_def lost_connection_world_def)

text \<open>
  Claim C10, as the code has it. When a connection is acquired, \<^verbatim>\<open>BEGIN\<close> succeeds and
  the unit of work throws \<open>e\<close>, then, if the rollback succeeds, \<^verbatim>\<open>executeInTransaction\<close>
  (and so \<^verbatim>\<open>TransactionManager.withTransaction\<close>) throws
  \<^verbatim>\<open>DatabaseError('Transaction failed', e)\<close>, so a validation, not-found or constraint
  error does not reach the caller with its own kind, while the standalone
  \<^verbatim>\<open>withTransaction\<close> throws \<open>e\<close> itself; and if \<^verbatim>\<open>ROLLBACK\<close> itself fails, its error
  is what all three throw.
\<close>

theorem managed_transaction_wraps_failure:
  assumes "connects w" and "answer_at w 1 = None" and "fst (callback (work w)) = Inl e"
  shows "(answer_at w 2 = None \<longrightarrow>
            fst (executeInTransaction callback w) =
              Inl (DatabaseError ''Transaction failed'' e) \<and>
            fst (TransactionManager_withTransaction callback w) =
              Inl (DatabaseError ''Transaction failed'' e) \<and>
            fst (withTransaction callback w) = Inl e) \<and>
         (\<forall>pe. answer_at w 2 = Some pe \<longrightarrow>
            fst (executeInTransaction callback w) = Inl (PgError pe) \<and>
            fst (TransactionManager_withTransaction callback w) = Inl (PgError pe) \<and>
            fst (withTransaction callback w) = Inl (PgError pe))"
proof -
  have cb: "callback (work w) = (Inl e, snd (callback (work w)))"
    using assms(3) by (cases "callback (work w)") simp
  have c: "answer_at w 0 = None"
    using assms(1) by (simp add: connects_eq answer_at_def)
  have m: "fst (executeInTransaction callback w) =
      (case answer_at w 2 of
         Some re \<Rightarrow> Inl (PgError re)
       | None \<Rightarrow> Inl (DatabaseError ''Transaction failed'' e))"
    using executeInTransaction_outcome[of callback w "Inl e" "snd (callback (work w))"
        "fst (executeInTransaction callback w)" "snd (executeInTransaction callback w)"]
      cb c assms(2)
    by simp
  have s: "fst (withTransaction callback w) =
      (case answer_at w 2 of Some re \<Rightarrow> Inl (PgError re) | None \<Rightarrow> Inl e)"
    using withTransaction_outcome[of callback w "Inl e" "snd (callback (work w))"
        "fst (withTransaction callback w)" "snd (withTransaction callback w)"]
      cb c assms(2)
    by simp
  show ?thesis
    by (simp add: m s TransactionManager_withTransaction_def)
qed

theorem managed_transaction_wraps_failure_witness:
  "fst (executeInTransaction failing_work idle_world) =
     Inl (DatabaseError ''Transaction failed''
            (ValidationError ''Invalid input'' [(''title'', [''Required''])])) \<and>
   fst (withTransaction failing_work idle_world) =
     Inl (ValidationError ''Invalid input'' [(''title'', [''Required''])])"
proof -
  have c: "connects idle_world"
    by (simp add: connects_def idle_world_def)
  have b: "answer_at idle_world 1 = None" "answer_at idle_world 2 = None"
    by (simp_all add: answer_at_def idle_world_def)
  have f: "fst (failing_work (work idle_world)) =
      Inl (ValidationError ''Invalid input'' [(''title'', [''Required''])])"
    by (simp add: failing_work_def)
  from managed_transaction_wraps_failure[of idle_world failing_work
         "ValidationError ''Invalid input'' [(''title'', [''Required''])]"] c b f
  show ?thesis by simp
qed

section \<open>Properties of the error translation\<close>

lemma take_fault_Some:
  "faults d = Some p # fs \<Longrightarrow> take_fault d = (Some p, d\<lparr>faults := fs\<rparr>)"
  by (simp add: take_fault_def)

lemma repoHandle_other:
  "code p \<noteq> Some ''23503'' \<Longrightarrow> code p \<noteq> Some ''23505'' \<Longrightarrow> code p \<noteq> Some ''23514'' \<Longrightarrow>
     repoHandleDatabaseError r (PgError p) = DatabaseError ''Database operation failed'' (PgError p)"
  by (simp add: repoHandleDatabaseError_def err_code_def)

lemma repoHandle_DatabaseError:
  "repoHandleDatabaseError r (DatabaseError m e) =
     DatabaseError ''Database operation failed'' (DatabaseError m e)"
  by (simp add: repoHandleDatabaseError_def err_code_def)

lemma rethrow_PgError: "rethrow r (PgError p) = repoHandleDatabaseError r (PgError p)"
  by (simp add: rethrow_def)

lemma rethrow_DatabaseError:
  "rethrow r (DatabaseError m e) = DatabaseError ''Database operation failed'' (DatabaseError m e)"
  by (simp add: rethrow_def repoHandle_DatabaseError)

text \<open>What each operation throws when the store reports \<open>p\<close> on its first statement.\<close>

lemma repo_create_store_error:
  "faults d = Some p # fs \<Longrightarrow>
     fst (repo_create rt r data userId d) = Inl (repoHandleDatabaseError r (PgError p))"
  by (simp add: repo_create_def sql_insert_def take_fault_Some)

lemma repo_findById_store_error:
  "faults d = Some p # fs \<Longrightarrow>
     repo_findById rt r i d = (Inl (repoHandleDatabaseError r (PgError p)), d\<lparr>faults := fs\<rparr>)"
  by (simp add: repo_findById_def sql_select_by_id_def take_fault_Some)

lemma findByEntityType_store_error:
  "faults d = Some p # fs \<Longrightarrow>
     fst (findByEntityType rt entity_type d) =
       Inl (repoHandleDatabaseError CustomFieldDefinitionRepository (PgError p))"
  by (simp add: findByEntityType_def sql_select_where_def take_fault_Some)

lemma repo_update_store_error:
  "faults d = Some p # fs \<Longrightarrow>
     fst (repo_update rt r i data userId d) =
       (if update_columns r data = []
        then Inl (rethrow r (repoHandleDatabaseError r (PgError p)))
        else Inl (repoHandleDatabaseError r (PgError p)))"
  by (simp add: repo_update_def Let_def repo_findById_store_error sql_update_by_id_def
        take_fault_Some rethrow_PgError)

lemma repo_delete_store_error:
  "faults d = Some p # fs \<Longrightarrow>
     fst (repo_delete rt r i userId d) =
       (if r = CustomFieldDefinitionRepository
        then Inl (rethrow r (repoHandleDatabaseError r (PgError p)))
        else Inl (repoHandleDatabaseError r (PgError p)))"
  by (simp add: repo_delete_def repo_findById_store_error sql_delete_by_id_def
        take_fault_Some rethrow_PgError)

text \<open>
  The custom field definition repository deletes in two statements; the second one is
  reached when the first one finds the definition.
\<close>

lemma repo_delete_definition_second_store_error:
  assumes "faults d = None # Some p # fs"
    and "filter (has_id i) (tables d ''custom_field_definitions'') \<noteq> []"
  shows "fst (repo_delete rt CustomFieldDefinitionRepository i userId d) =
           Inl (repoHandleDatabaseError CustomFieldDefinitionRepository (PgError p))"
proof -
  obtain row rows where rows:
    "filter (has_id i) (tables d ''custom_field_definitions'') = row # rows"
    using assms(2) by (cases "filter (has_id i) (tables d ''custom_field_definitions'')") auto
  have f: "repo_findById rt CustomFieldDefinitionRepository i d =
      (Inr (Some (mapRow rt CustomFieldDefinitionRepository row)), d\<lparr>faults := Some p # fs\<rparr>)"
    using assms(1) rows
    by (simp add: repo_findById_def sql_select_by_id_def take_fault_def tableName_def)
  show ?thesis
    by (simp add: repo_delete_def f sql_delete_by_id_def take_fault_def rethrow_PgError)
qed

lemma createAuditLog_store_error:
  "faults d = Some p # fs \<Longrightarrow>
     fst (createAuditLog rt entity_type entity_id action userId changes d) =
       Inl (DatabaseError ''Failed to create audit log'' (PgError p))"
  by (simp add: createAuditLog_def sql_insert_def take_fault_Some)

text \<open>
  Claim C8, as the code has it. The shared \<^verbatim>\<open>handleDatabaseError\<close> of
  utils/error-handler.ts translates a not-null violation (23502) into a
  \<^verbatim>\<open>ConstraintViolationError\<close> whose message names the offending column, and a
  malformed literal (22P02) into a \<^verbatim>\<open>ValidationError\<close>. No repository calls it: the
  private handler of each of the six repositories knows the foreign key, unique and
  check violations only and returns, for both errors, a \<^verbatim>\<open>DatabaseError\<close> around the
  original. So when the store reports such an error on the first statement of an
  operation, \<^verbatim>\<open>create\<close> and \<^verbatim>\<open>findById\<close> of every repository,
  \<^verbatim>\<open>findByEntityType\<close>, \<^verbatim>\<open>update\<close> with a recognized field and \<^verbatim>\<open>delete\<close> of the
  five entity repositories throw that \<^verbatim>\<open>DatabaseError\<close>. An \<^verbatim>\<open>update\<close> without a
  recognized field, and \<^verbatim>\<open>delete\<close> of the custom field definition repository, look
  the row up with \<^verbatim>\<open>findById\<close> first and pass what it throws through the handler a
  second time: they throw a \<^verbatim>\<open>DatabaseError\<close> around that \<^verbatim>\<open>DatabaseError\<close>. When
  the error is reported on the \<^verbatim>\<open>DELETE\<close> of a custom field definition that the
  lookup has found, the \<^verbatim>\<open>DatabaseError\<close> is around the original. The audit log
  repository wraps every failure of \<^verbatim>\<open>createAuditLog\<close> as a \<^verbatim>\<open>DatabaseError\<close> of
  its own. In no case is the result a \<^verbatim>\<open>ConstraintViolationError\<close> or a
  \<^verbatim>\<open>ValidationError\<close>.
\<close>

theorem shared_handler_translates_not_null_and_format:
  "(code p = Some ''23502'' \<longrightarrow>
      handleDatabaseError (PgError p) =
        ConstraintViolationError
          (''Required field '' @ apos @ or_else (column_name p) ''unknown'' @ apos @
           '' cannot be null'') ''not_null'' \<and>
      repoHandleDatabaseError r (PgError p) =
        DatabaseError ''Database operation failed'' (PgError p)) \<and>
   (code p = Some ''22P02'' \<longrightarrow>
      handleDatabaseError (PgError p) =
        ValidationError ''Invalid data format''
          [(''format'', [''Invalid UUID or data type format''])] \<and>
      repoHandleDatabaseError r (PgError p) =
        DatabaseError ''Database operation failed'' (PgError p)) \<and>
   ((code p = Some ''23502'' \<or> code p = Some ''22P02'') \<and> faults d = Some p # fs \<longrightarrow>
      fst (repo_create rt r data userId d) =
        Inl (DatabaseError ''Database operation failed'' (PgError p)) \<and>
      fst (repo_findById rt r i d) =
        Inl (DatabaseError ''Database operation failed'' (PgError p)) \<and>
      fst (findByEntityType rt entity_type d) =
        Inl (DatabaseError ''Database operation failed'' (PgError p)) \<and>
      fst (repo_update rt r i data userId d) =
        (if update_columns r data = []
         then Inl (DatabaseError ''Database operation failed''
                     (DatabaseError ''Database operation failed'' (PgError p)))
         else Inl (DatabaseError ''Database operation failed'' (PgError p))) \<and>
      fst (repo_delete rt r i userId d) =
        (if r = CustomFieldDefinitionRepository
         then Inl (DatabaseError ''Database operation failed''
                     (DatabaseError ''Database operation failed'' (PgError p)))
         else Inl (DatabaseError ''Database operation failed'' (PgError p))) \<and>
      fst (createAuditLog rt entity_type entity_id action userId changes d) =
        Inl (DatabaseError ''Failed to create audit log'' (PgError p))) \<and>
   ((code p = Some ''23502'' \<or> code p = Some ''22P02'') \<and> faults d = None # Some p # fs \<and>
    filter (has_id i) (tables d ''custom_field_definitions'') \<noteq> [] \<longrightarrow>
      fst (repo_delete rt CustomFieldDefinitionRepository i userId d) =
        Inl (DatabaseError ''Database operation failed'' (PgError p)))"
proof -
  have shared: "code p = Some ''23502'' \<longrightarrow>
      handleDatabaseError (PgError p) =
        ConstraintViolationError
          (''Required field '' @ apos @ or_else (column_name p) ''unknown'' @ apos @
           '' cannot be null'') ''not_null''"
    "code p = Some ''22P02'' \<longrightarrow>
      handleDatabaseError (PgError p) =
        ValidationError ''Invalid data format''
          [(''format'', [''Invalid UUID or data type format''])]"
    by (simp_all add: handleDatabaseError_def err_code_def err_column_def Let_def)
  have own_handler: "repoHandleDatabaseError r' (PgError p) =
      DatabaseError ''Database operation failed'' (PgError p)"
    if "code p = Some ''23502'' \<or> code p = Some ''22P02''" for r'
    using that by (auto simp: repoHandle_other)
  have first: "fst (repo_create rt r data userId d) =
        Inl (DatabaseError ''Database operation failed'' (PgError p)) \<and>
      fst (repo_findById rt r i d) =
        Inl (DatabaseError ''Database operation failed'' (PgError p)) \<and>
      fst (findByEntityType rt entity_type d) =
        Inl (DatabaseError ''Database operation failed'' (PgError p)) \<and>
      fst (repo_update rt r i data userId d) =
        (if update_columns r data = []
         then Inl (DatabaseError ''Database operation failed''
                     (DatabaseError ''Database operation failed'' (PgError p)))
         else Inl (DatabaseError ''Database operation failed'' (PgError p))) \<and>
      fst (repo_delete rt r i userId d) =
        (if r = CustomFieldDefinitionRepository
         then Inl (DatabaseError ''Database operation failed''
                     (DatabaseError ''Database operation failed'' (PgError p)))
         else Inl (DatabaseError ''Database operation failed'' (PgError p))) \<and>
      fst (createAuditLog rt entity_type entity_id action userId changes d) =
        Inl (DatabaseError ''Failed to create audit log'' (PgError p))"
    if c: "code p = Some ''23502'' \<or> code p = Some ''22P02''" and f: "faults d = Some p # fs"
    by (simp add: repo_create_store_error[OF f] repo_findById_store_error[OF f]
          findByEntityType_store_error[OF f] repo_update_store_error[OF f]
          repo_delete_store_error[OF f] createAuditLog_store_error[OF f]
          own_handler[OF c] rethrow_DatabaseError)
  have second: "fst (repo_delete rt CustomFieldDefinitionRepository i userId d) =
        Inl (DatabaseError ''Database operation failed'' (PgError p))"
    if c: "code p = Some ''23502'' \<or> code p = Some ''22P02''"
      and f: "faults d = None # Some p # fs"
      and n: "filter (has_id i) (tables d ''custom_field_definitions'') \<noteq> []"
    by (simp add: repo_delete_definition_second_store_error[OF f n] own_handler[OF c])
  show ?thesis
    using shared own_handler first second by blast
qed

text \<open>
  An instance: the shared handler turns the not-null violation on \<open>name\<close> into a
  constraint violation that names the column, and the malformed uuid into a validation
  failure; given the malformed uuid by the store, an \<^verbatim>\<open>update\<close> of a company without
  a recognized field throws a \<^verbatim>\<open>DatabaseError\<close> around a \<^verbatim>\<open>DatabaseError\<close>, and the
  audit log repository a \<^verbatim>\<open>DatabaseError\<close> of its own.
\<close>

theorem shared_handler_translates_not_null_and_format_witness:
  "handleDatabaseError (PgError not_null_violation) =
     ConstraintViolationError (''Required field '' @ apos @ ''name'' @ apos @ '' cannot be null'')
       ''not_null'' \<and>
   handleDatabaseError (PgError invalid_uuid) =
     ValidationError ''Invalid data format'' [(''format'', [''Invalid UUID or data type format''])] \<and>
   fst (repo_update sample_rt CompanyRepository ''not-a-uuid'' [] ''ann''
          (empty_db\<lparr>faults := [Some invalid_uuid]\<rparr>)) =
     Inl (DatabaseError ''Database operation failed''
            (DatabaseError ''Database operation failed'' (PgError invalid_uuid))) \<and>
   fst (createAuditLog sample_rt ''company'' (JStr ''c1'') ''create'' ''ann'' JNull
          (empty_db\<lparr>faults := [Some invalid_uuid]\<rparr>)) =
     Inl (DatabaseError ''Failed to create audit log'' (PgError invalid_uuid))"
proof -
  have a: "code not_null_violation = Some ''23502''" "column_name not_null_violation = Some ''name''"
    by (simp_all add: not_null_violation_def)
  have b: "code invalid_uuid = Some ''22P02''"
    by (simp add: invalid_uuid_def)
  have f: "faults (empty_db\<lparr>faults := [Some invalid_uuid]\<rparr>) = Some invalid_uuid # []"
    by simp
  have u: "update_columns CompanyRepository [] = []"
    by (simp add: update_columns_def recognized_def get_prop_def)
  from shared_handler_translates_not_null_and_format[of not_null_violation CompanyRepository]
       shared_handler_translates_not_null_and_format[of invalid_uuid CompanyRepository
         "empty_db\<lparr>faults := [Some invalid_uuid]\<rparr>" "[]" sample_rt "[]" "''ann''"
         "''not-a-uuid''" "''company''" "JStr ''c1''" "''create''" JNull] a b f u
  show ?thesis by (simp add: or_else_def)
qed

text \<open>
  Claim C8 as the specification words it, for every repository, fails: the company
  repository lets a not-null violation reported on an INSERT, and a malformed uuid
  reported on a SELECT, leave its boundary as a \<^verbatim>\<open>DatabaseError\<close>.
\<close>

theorem repository_wraps_not_null_as_DatabaseError:
  "fst (repo_create sample_rt CompanyRepository [(''address'', JNull)] ''ann''
         (empty_db\<lparr>faults := [Some not_null_violation]\<rparr>)) =
     Inl (DatabaseError ''Database operation failed'' (PgError not_null_violation)) \<and>
   fst (repo_findById sample_rt CompanyRepository ''not-a-uuid''
         (empty_db\<lparr>faults := [Some invalid_uuid]\<rparr>)) =
     Inl (DatabaseError ''Database operation failed'' (PgError invalid_uuid))"
  by (simp add: repo_create_def repo_findById_def sql_insert_def sql_select_by_id_def
        take_fault_def empty_db_def repoHandleDatabaseError_def err_code_def
        not_null_violation_def invalid_uuid_def)

section \<open>Properties of the audit diff\<close>

lemma map_of_set_prop: "map_of (set_prop obj k v) = (map_of obj)(k \<mapsto> v)"
  by (induction obj k v rule: set_prop.induct) auto

lemma keys_set_prop: "set (Object_keys (set_prop obj k v)) = insert k (set (Object_keys obj))"
  by (induction obj k v rule: set_prop.induct) (auto simp: Object_keys_def)

lemma distinct_set_prop:
  "distinct (Object_keys obj) \<Longrightarrow> distinct (Object_keys (set_prop obj k v))"
  by (induction obj k v rule: set_prop.induct)
     (auto simp: Object_keys_def keys_set_prop[unfolded Object_keys_def, simplified])

lemma set_fold_set_add: "set (fold (\<lambda>x s. set_add s x) xs s0) = set s0 \<union> set xs"
  by (induction xs arbitrary: s0) (auto simp: set_add_def)

lemma set_new_Set: "set (new_Set xs) = set xs"
  by (simp add: new_Set_def set_fold_set_add)

lemma map_of_changesLoop:
  "map_of (changesLoop rt before after keys changes) k =
     (if k \<in> set keys \<and> k \<notin> set metadata_fields \<and>
         rt_stringify rt (get_prop before k) \<noteq> rt_stringify rt (get_prop after k)
      then Some (JObj [(''before'', get_prop before k), (''after'', get_prop after k)])
      else map_of changes k)"
proof (induction keys arbitrary: changes)
  case Nil
  then show ?case by simp
next
  case (Cons key keys)
  show ?case
    by (simp add: Cons.IH Let_def map_of_set_prop del: set_simps) (auto)
qed

lemma distinct_changesLoop:
  "distinct (Object_keys changes) \<Longrightarrow>
     distinct (Object_keys (changesLoop rt before after keys changes))"
  by (induction keys arbitrary: changes) (simp_all add: Let_def distinct_set_prop)

lemma map_of_calculateChanges:
  "map_of (calculateChanges rt before after) k =
     (if (has_key k before \<or> has_key k after) \<and> k \<notin> set metadata_fields \<and>
         rt_stringify rt (get_prop before k) \<noteq> rt_stringify rt (get_prop after k)
      then Some (JObj [(''before'', get_prop before k), (''after'', get_prop after k)])
      else None)"
  by (simp add: calculateChanges_def Let_def map_of_changesLoop set_new_Set has_key_def)

text \<open>
  Claim C4. For every before-entity and after-entity and every serializer, the diff that
  \<^verbatim>\<open>calculateChanges\<close> computes is an object with distinct keys that has an entry
  under a key exactly when the key is present in either entity, is none of \<open>id\<close>,
  \<open>createdAt\<close>, \<open>createdBy\<close>, \<open>updatedAt\<close>, \<open>updatedBy\<close>, and the serialized values
  under it differ; the entry is \<open>{before, after}\<close> with the two values. When the diff is
  empty, \<^verbatim>\<open>logUpdate\<close> sends no statement to the store and leaves it as it is: no
  audit record is written.
\<close>

theorem audit_diff_is_exact:
  "map_of (calculateChanges rt before after) k =
     (if (has_key k before \<or> has_key k after) \<and> k \<notin> set metadata_fields \<and>
         rt_stringify rt (get_prop before k) \<noteq> rt_stringify rt (get_prop after k)
      then Some (JObj [(''before'', get_prop before k), (''after'', get_prop after k)])
      else None) \<and>
   distinct (Object_keys (calculateChanges rt before after)) \<and>
   (has_key k (calculateChanges rt before after) \<longleftrightarrow>
      (has_key k before \<or> has_key k after) \<and> k \<notin> set metadata_fields \<and>
      rt_stringify rt (get_prop before k) \<noteq> rt_stringify rt (get_prop after k)) \<and>
   (calculateChanges rt before after = [] \<longrightarrow>
      logUpdate rt entity_type entity_id userId before after d = (Inr (), d))"
proof -
  have m: "map_of (calculateChanges rt before after) k =
     (if (has_key k before \<or> has_key k after) \<and> k \<notin> set metadata_fields \<and>
         rt_stringify rt (get_prop before k) \<noteq> rt_stringify rt (get_prop after k)
      then Some (JObj [(''before'', get_prop before k), (''after'', get_prop after k)])
      else None)"
    by (rule map_of_calculateChanges)
  have dist: "distinct (Object_keys (calculateChanges rt before after))"
  proof -
    have "distinct (Object_keys ([] :: jsobj))" by (simp add: Object_keys_def)
    then show ?thesis by (simp add: calculateChanges_def Let_def distinct_changesLoop)
  qed
  have "has_key k (calculateChanges rt before after) \<longleftrightarrow>
      map_of (calculateChanges rt before after) k \<noteq> None"
    by (simp add: has_key_def Object_keys_def map_of_eq_None_iff)
  then have h: "has_key k (calculateChanges rt before after) \<longleftrightarrow>
      (has_key k before \<or> has_key k after) \<and> k \<notin> set metadata_fields \<and>
      rt_stringify rt (get_prop before k) \<noteq> rt_stringify rt (get_prop after k)"
    unfolding m by simp
  have l: "calculateChanges rt before after = [] \<longrightarrow>
      logUpdate rt entity_type entity_id userId before after d = (Inr (), d)"
    by (simp add: logUpdate_def Let_def Object_keys_def)
  show ?thesis using m dist h l by blast
qed

theorem audit_diff_is_exact_witness:
  "calculateChanges sample_rt acme_before acme_after =
     [(''name'', JObj [(''before'', JStr ''Acme''), (''after'', JStr ''Acme Inc'')])] \<and>
   logUpdate sample_rt ''company'' (JStr ''c1'') ''bob'' acme_before acme_before empty_db =
     (Inr (), empty_db)"
proof -
  have same: "calculateChanges sample_rt acme_before acme_before = []"
    by (simp add: calculateChanges_def changesLoop.simps new_Set_def set_add_def Object_keys_def
          acme_before_def metadata_fields_def get_prop_def sample_rt_def Let_def)
  have diff: "calculateChanges sample_rt acme_before acme_after =
     [(''name'', JObj [(''before'', JStr ''Acme''), (''after'', JStr ''Acme Inc'')])]"
    by (simp add: calculateChanges_def changesLoop.simps new_Set_def set_add_def Object_keys_def
          acme_before_def acme_after_def metadata_fields_def get_prop_def sample_rt_def
          sample_stringify_def Let_def)
  from audit_diff_is_exact[of sample_rt acme_before acme_before _ "''company''" "JStr ''c1''" "''bob''" empty_db] same
  have "logUpdate sample_rt ''company'' (JStr ''c1'') ''bob'' acme_before acme_before empty_db =
     (Inr (), empty_db)"
    by blast
  with diff show ?thesis by simp
qed

section \<open>Properties of the repositories\<close>

lemma take_fault_executes:
  "store_executes d \<Longrightarrow> take_fault d = (None, d\<lparr>faults := tl (faults d)\<rparr>)"
  by (cases "faults d") (auto simp: take_fault_def store_executes_def)

lemma take_fault_fails:
  "\<not> store_executes d \<Longrightarrow>
     \<exists>e. take_fault d = (Some e, d\<lparr>faults := tl (faults d)\<rparr>)"
  by (cases "faults d") (auto simp: take_fault_def store_executes_def)

lemma repo_findById_executes:
  "store_executes d \<Longrightarrow>
     repo_findById rt r i d =
       (case filter (has_id i) (tables d (tableName r)) of
          [] \<Rightarrow> Inr None
        | row # rows \<Rightarrow> Inr (Some (mapRow rt r row)),
        d\<lparr>faults := tl (faults d)\<rparr>)"
  by (simp add: repo_findById_def sql_select_by_id_def take_fault_executes split: list.splits)

lemma repo_findById_fails:
  "\<not> store_executes d \<Longrightarrow>
     \<exists>e. repo_findById rt r i d = (Inl e, d\<lparr>faults := tl (faults d)\<rparr>)"
  using take_fault_fails[of d]
  by (auto simp: repo_findById_def sql_select_by_id_def)

lemma update_columns_empty_iff:
  "update_columns r data = [] \<longleftrightarrow>
     (\<forall>f \<in> set (recognized_fields r). get_prop data f = JUndefined)"
  by (cases r) (auto simp: update_columns_def recognized_fields_def recognized_def)

text \<open>
  Claim C6. When the partial data holds no recognized field (every
  \<^verbatim>\<open>data.f !== undefined\<close> test of the repository fails), \<^verbatim>\<open>update\<close> sends one
  SELECT and nothing else: the store is left as it was but for the answer consumed, so no
  row and no modification timestamp changes. If the store executes the SELECT, the result
  is the entity of the stored row, the same that \<^verbatim>\<open>findById\<close> returns, when a row
  has the id, and the failure \<^verbatim>\<open>NotFoundError\<close> when none has. This holds for each
  of the six repositories.
\<close>

theorem update_without_recognized_fields_is_noop:
  assumes "\<forall>f \<in> set (recognized_fields r). get_prop data f = JUndefined"
  shows "snd (repo_update rt r i data userId d) = d\<lparr>faults := tl (faults d)\<rparr> \<and>
         tables (snd (repo_update rt r i data userId d)) = tables d \<and>
         (store_executes d \<longrightarrow>
            fst (repo_update rt r i data userId d) =
              (case filter (has_id i) (tables d (tableName r)) of
                 [] \<Rightarrow> Inl (NotFoundError (entityName r) i)
               | row # rows \<Rightarrow> Inr (mapRow rt r row)) \<and>
            (\<forall>existing. fst (repo_findById rt r i d) = Inr (Some existing) \<longrightarrow>
               fst (repo_update rt r i data userId d) = Inr existing))"
proof -
  have none: "update_columns r data = []"
    using assms by (simp add: update_columns_empty_iff)
  show ?thesis
  proof (cases "store_executes d")
    case True
    then show ?thesis
      using none
      by (auto simp: repo_update_def repo_findById_executes rethrow_def split: list.splits)
  next
    case False
    then obtain e where "repo_findById rt r i d = (Inl e, d\<lparr>faults := tl (faults d)\<rparr>)"
      using repo_findById_fails by blast
    with False show ?thesis
      using none by (simp add: repo_update_def)
  qed
qed

theorem update_without_recognized_fields_is_noop_witness:
  "repo_update sample_rt CompanyRepository ''c1'' [] ''bob'' acme_db =
     (Inr (mapRow sample_rt CompanyRepository acme_row), acme_db) \<and>
   repo_update sample_rt CompanyRepository ''c2'' [] ''bob'' acme_db =
     (Inl (NotFoundError ''Company'' ''c2''), acme_db)"
proof -
  have u: "\<forall>f \<in> set (recognized_fields CompanyRepository). get_prop [] f = JUndefined"
    by (simp add: get_prop_def)
  have e: "store_executes acme_db" "acme_db\<lparr>faults := tl (faults acme_db)\<rparr> = acme_db"
    by (simp_all add: store_executes_def acme_db_def)
  have f1: "filter (has_id ''c1'') (tables acme_db (tableName CompanyRepository)) = [acme_row]"
    by (simp add: acme_db_def acme_tables_def tableName_def has_id_def get_prop_def acme_row_def)
  have f2: "filter (has_id ''c2'') (tables acme_db (tableName CompanyRepository)) = []"
    by (simp add: acme_db_def acme_tables_def tableName_def has_id_def get_prop_def acme_row_def)
  from update_without_recognized_fields_is_noop[OF u, of sample_rt "''c1''" "''bob''" acme_db]
       update_without_recognized_fields_is_noop[OF u, of sample_rt "''c2''" "''bob''" acme_db] e f1 f2 u
  show ?thesis
    by (simp add: prod_eq_iff entityName_def)
qed

section \<open>Properties of the services\<close>

text \<open>
  Claim C3, as the code has it. When no row of the table has the id and the store
  executes the lookup, \<^verbatim>\<open>get\<close>, \<^verbatim>\<open>update\<close> (once its input passes the schema) and
  \<^verbatim>\<open>delete\<close> of each of the five entity services, and \<^verbatim>\<open>get\<close>, \<^verbatim>\<open>update\<close> and
  \<^verbatim>\<open>delete\<close> of the custom field service, fail with a \<^verbatim>\<open>ValidationError\<close> whose
  message is "... not found" and whose field mapping is \<open>id\<close> with "... does not exist":
  the error that the service throws itself on the \<^verbatim>\<open>null\<close> that \<^verbatim>\<open>findById\<close>
  returns, and not a \<^verbatim>\<open>NotFoundError\<close>.
\<close>

theorem missing_entity_fails_with_ValidationError:
  assumes "store_executes d"
  shows "(filter (has_id i) (tables d (tableName (repository_of s))) = [] \<longrightarrow>
            fst (getEntity rt s i d) =
              Inl (ValidationError (entityName (repository_of s) @ '' not found'')
                     [(''id'', [entityName (repository_of s) @ '' does not exist''])]) \<and>
            fst (deleteEntity rt s i userId d) =
              Inl (ValidationError (entityName (repository_of s) @ '' not found'')
                     [(''id'', [entityName (repository_of s) @ '' does not exist''])]) \<and>
            (\<forall>validatedData.
               rt_parse rt (UpdateSchema (repository_of s)) data = Inr validatedData \<longrightarrow>
               fst (updateEntity rt s i data userId d) =
                 Inl (ValidationError (entityName (repository_of s) @ '' not found'')
                        [(''id'', [entityName (repository_of s) @ '' does not exist''])]))) \<and>
         (filter (has_id i) (tables d ''custom_field_definitions'') = [] \<longrightarrow>
            fst (getCustomFieldDefinition rt i d) =
              Inl (ValidationError ''Custom field definition not found''
                     [(''id'', [''Custom field definition does not exist''])]) \<and>
            fst (updateCustomFieldDefinition rt i data userId d) =
              Inl (ValidationError ''Custom field definition not found''
                     [(''id'', [''Custom field definition does not exist''])]) \<and>
            fst (deleteCustomFieldDefinition rt i userId d) =
              Inl (ValidationError ''Custom field definition not found''
                     [(''id'', [''Custom field definition does not exist''])]))"
proof -
  have cfd: "tableName CustomFieldDefinitionRepository = ''custom_field_definitions''"
    by (simp add: tableName_def)
  show ?thesis
    using assms
    by (auto simp: getEntity_def deleteEntity_def updateEntity_def getCustomFieldDefinition_def
          updateCustomFieldDefinition_def deleteCustomFieldDefinition_def
          repo_findById_executes not_found_def cfd)
qed

theorem missing_entity_fails_with_ValidationError_witness:
  "fst (getEntity sample_rt TaskService ''t9'' acme_db) =
     Inl (ValidationError ''Task not found'' [(''id'', [''Task does not exist''])]) \<and>
   fst (deleteEntity sample_rt TaskService ''t9'' ''bob'' acme_db) =
     Inl (ValidationError ''Task not found'' [(''id'', [''Task does not exist''])])"
proof -
  have e: "store_executes acme_db"
    by (simp add: store_executes_def acme_db_def)
  have n: "filter (has_id ''t9'') (tables acme_db (tableName (repository_of TaskService))) = []"
    by (simp add: acme_db_def acme_tables_def tableName_def repository_of_def)
  have t: "entityName (repository_of TaskService) = ''Task''"
    by (simp add: entityName_def repository_of_def)
  from missing_entity_fails_with_ValidationError[OF e, of "''t9''" TaskService sample_rt "''bob''"] n
  show ?thesis unfolding t by simp
qed

text \<open>
  Claim C3 as the specification words it fails: asked for a company that is not stored,
  \<^verbatim>\<open>getCompany\<close> throws a \<^verbatim>\<open>ValidationError\<close>, not the \<^verbatim>\<open>NotFoundError\<close> of
  that company.
\<close>

theorem getCompany_missing_is_not_NotFoundError:
  "fst (getEntity sample_rt CompanyService ''c2'' acme_db) =
     Inl (ValidationError ''Company not found'' [(''id'', [''Company does not exist''])]) \<and>
   fst (getEntity sample_rt CompanyService ''c2'' acme_db) \<noteq>
     Inl (NotFoundError ''Company'' ''c2'')"
  by (simp add: getEntity_def repo_findById_def sql_select_by_id_def take_fault_def
        acme_db_def acme_tables_def tableName_def repository_of_def entityName_def
        has_id_def get_prop_def acme_row_def not_found_def)

section \<open>Properties of the audit trail\<close>

lemma tableName_not_audit [simp]: "tableName r \<noteq> ''audit_logs''"
  by (cases r) (simp_all add: tableName_def)

lemma audit_rows_faults [simp]: "audit_rows (d\<lparr>faults := fs\<rparr>) = audit_rows d"
  by (simp add: audit_rows_def)

lemma take_fault_audit: "take_fault d = (f, d') \<Longrightarrow> audit_rows d' = audit_rows d"
  by (cases "faults d") (auto simp: take_fault_def)

lemma sql_insert_audit:
  "t \<noteq> ''audit_logs'' \<Longrightarrow> sql_insert t vals d = (res, d') \<Longrightarrow> audit_rows d' = audit_rows d"
  by (cases "take_fault d")
     (auto simp: sql_insert_def Let_def audit_rows_def dest!: take_fault_audit
        split: option.splits)

lemma sql_select_by_id_audit:
  "sql_select_by_id t i d = (res, d') \<Longrightarrow> audit_rows d' = audit_rows d"
  by (cases "take_fault d")
     (auto simp: sql_select_by_id_def dest!: take_fault_audit split: option.splits)

lemma sql_select_where_audit:
  "sql_select_where t cond d = (res, d') \<Longrightarrow> audit_rows d' = audit_rows d"
  by (cases "take_fault d")
     (auto simp: sql_select_where_def dest!: take_fault_audit split: option.splits)

lemma sql_update_by_id_audit:
  "t \<noteq> ''audit_logs'' \<Longrightarrow> sql_update_by_id t sets i d = (res, d') \<Longrightarrow>
     audit_rows d' = audit_rows d"
  by (cases "take_fault d")
     (auto simp: sql_update_by_id_def audit_rows_def dest!: take_fault_audit
        split: option.splits)

lemma sql_delete_by_id_audit:
  "t \<noteq> ''audit_logs'' \<Longrightarrow> sql_delete_by_id t i d = (res, d') \<Longrightarrow>
     audit_rows d' = audit_rows d"
  by (cases "take_fault d")
     (auto simp: sql_delete_by_id_def audit_rows_def dest!: take_fault_audit
        split: option.splits)

lemma repo_create_audit:
  "repo_create rt r data userId d = (res, d') \<Longrightarrow> audit_rows d' = audit_rows d"
  by (cases "sql_insert (tableName r) (insert_values r data userId) d")
     (auto simp: repo_create_def dest: sql_insert_audit[rotated] split: sum.splits)

lemma repo_findById_audit:
  "repo_findById rt r i d = (res, d') \<Longrightarrow> audit_rows d' = audit_rows d"
  by (cases "sql_select_by_id (tableName r) i d")
     (auto simp: repo_findById_def dest: sql_select_by_id_audit split: sum.splits list.splits)

lemma repo_update_audit:
  "repo_update rt r i data userId d = (res, d') \<Longrightarrow> audit_rows d' = audit_rows d"
  by (cases "repo_findById rt r i d";
      cases "sql_update_by_id (tableName r) (update_columns r data @ update_stamp r userId d) i d")
     (auto simp: repo_update_def Let_def
        dest: repo_findById_audit sql_update_by_id_audit[rotated]
        split: sum.splits list.splits option.splits if_splits)

lemma repo_delete_audit:
  "repo_delete rt r i userId d = (res, d') \<Longrightarrow> audit_rows d' = audit_rows d"
proof (cases "r = CustomFieldDefinitionRepository")
  case True
  assume a: "repo_delete rt r i userId d = (res, d')"
  obtain r1 d1 where f: "repo_findById rt r i d = (r1, d1)" by (cases "repo_findById rt r i d")
  obtain r2 d2 where s: "sql_delete_by_id (tableName r) i d1 = (r2, d2)"
    by (cases "sql_delete_by_id (tableName r) i d1")
  have 1: "audit_rows d1 = audit_rows d" using f by (rule repo_findById_audit)
  have 2: "audit_rows d2 = audit_rows d1" using s by (rule sql_delete_by_id_audit[rotated]) simp
  from a True f s 1 2 show ?thesis
    by (auto simp: repo_delete_def split: sum.splits option.splits)
next
  case False
  assume a: "repo_delete rt r i userId d = (res, d')"
  obtain r2 d2 where s: "sql_delete_by_id (tableName r) i d = (r2, d2)"
    by (cases "sql_delete_by_id (tableName r) i d")
  have 2: "audit_rows d2 = audit_rows d" using s by (rule sql_delete_by_id_audit[rotated]) simp
  from a False s 2 show ?thesis
    by (auto simp: repo_delete_def split: sum.splits if_splits)
qed

lemma findByEntityType_audit:
  "findByEntityType rt t d = (res, d') \<Longrightarrow> audit_rows d' = audit_rows d"
  by (auto simp: findByEntityType_def dest: sql_select_where_audit
        split: sum.splits prod.splits if_splits)

lemma checkCustomFields_audit:
  "checkCustomFields rt s v d = (res, d') \<Longrightarrow> audit_rows d' = audit_rows d"
  by (auto simp: checkCustomFields_def dest: findByEntityType_audit
        split: jsval.splits sum.splits prod.splits if_splits)

lemma get_prop_Cons:
  "get_prop ((k', v) # obj) k = (if k = k' then v else get_prop obj k)"
  by (simp add: get_prop_def)

lemma createAuditLog_audit:
  assumes "createAuditLog rt t ei action userId changes d = (res, d')"
  shows "(case res of
            Inl e \<Rightarrow> no_audit_record d d'
          | Inr logged \<Rightarrow> one_audit_record d d' action userId)"
proof (cases "take_fault d")
  case (Pair f d0)
  then have a: "audit_rows d0 = audit_rows d" by (rule take_fault_audit)
  show ?thesis
  proof (cases f)
    case None
    with assms Pair a show ?thesis
      by (auto simp: createAuditLog_def sql_insert_def Let_def one_audit_record_def
            audit_rows_def generated_columns_def get_prop_Cons pg_param_def)
  next
    case (Some e)
    with assms Pair a show ?thesis
      by (auto simp: createAuditLog_def sql_insert_def no_audit_record_def)
  qed
qed

lemma logCreate_audit:
  "logCreate rt t ei userId entity d = (Inr u, d') \<Longrightarrow> one_audit_record d d' ''create'' userId"
  using createAuditLog_audit[of rt t ei "''create''" userId "JObj [(''created'', JObj entity)]" d]
  by (auto simp: logCreate_def split: sum.splits prod.splits)

lemma logDelete_audit:
  "logDelete rt t ei userId entity d = (Inr u, d') \<Longrightarrow> one_audit_record d d' ''delete'' userId"
  using createAuditLog_audit[of rt t ei "''delete''" userId "JObj [(''deleted'', JObj entity)]" d]
  by (auto simp: logDelete_def split: sum.splits prod.splits)

lemma logUpdate_audit:
  "logUpdate rt t ei userId before after d = (Inr u, d') \<Longrightarrow>
     (if calculateChanges rt before after = [] then no_audit_record d d'
      else one_audit_record d d' ''update'' userId)"
  using createAuditLog_audit[of rt t ei "''update''" userId
          "JObj (calculateChanges rt before after)" d]
  by (auto simp: logUpdate_def Let_def Object_keys_def no_audit_record_def
        split: sum.splits prod.splits if_splits)

lemma createEntity_audit:
  assumes a: "createEntity rt s data userId d = (Inr entity, d')"
  shows "one_audit_record d d' ''create'' userId"
proof -
  obtain v where p: "rt_parse rt (CreateSchema (repository_of s)) data = Inr v"
    using a by (auto simp: createEntity_def split: sum.splits)
  define chk where
    "chk = (if has_custom_fields s then checkCustomFields rt s v d else (Inr (), d))"
  obtain ok d1 where c: "chk = (Inr ok, d1)"
    using a p by (cases chk) (auto simp: createEntity_def chk_def split: sum.splits)
  obtain entity' d2 where r: "repo_create rt (repository_of s) v userId d1 = (Inr entity', d2)"
    using a p c
    by (cases "repo_create rt (repository_of s) v userId d1")
       (auto simp: createEntity_def chk_def split: sum.splits)
  obtain u where l: "logCreate rt (entity_type_of s) (get_prop entity' ''id'') userId entity' d2 =
      (Inr u, d')"
    using a p c r
    by (cases "logCreate rt (entity_type_of s) (get_prop entity' ''id'') userId entity' d2")
       (auto simp: createEntity_def chk_def split: sum.splits)
  have 1: "audit_rows d1 = audit_rows d"
    using c by (auto simp: chk_def dest: checkCustomFields_audit split: if_splits)
  have 2: "audit_rows d2 = audit_rows d1"
    using r by (rule repo_create_audit)
  have "one_audit_record d2 d' ''create'' userId"
    using l by (rule logCreate_audit)
  then show ?thesis
    using 1 2 by (simp add: one_audit_record_def)
qed

lemma deleteEntity_audit:
  assumes a: "deleteEntity rt s i userId d = (Inr u, d')"
  shows "one_audit_record d d' ''delete'' userId"
proof -
  obtain existing d1 where f: "repo_findById rt (repository_of s) i d = (Inr (Some existing), d1)"
    using a
    by (cases "repo_findById rt (repository_of s) i d")
       (auto simp: deleteEntity_def split: sum.splits option.splits)
  obtain ok d2 where r: "repo_delete rt (repository_of s) i userId d1 = (Inr ok, d2)"
    using a f
    by (cases "repo_delete rt (repository_of s) i userId d1")
       (auto simp: deleteEntity_def split: sum.splits)
  obtain u' where l: "logDelete rt (entity_type_of s) (JStr i) userId existing d2 = (Inr u', d')"
    using a f r
    by (cases "logDelete rt (entity_type_of s) (JStr i) userId existing d2")
       (auto simp: deleteEntity_def split: sum.splits)
  have 1: "audit_rows d1 = audit_rows d" using f by (rule repo_findById_audit)
  have 2: "audit_rows d2 = audit_rows d1" using r by (rule repo_delete_audit)
  have "one_audit_record d2 d' ''delete'' userId" using l by (rule logDelete_audit)
  then show ?thesis using 1 2 by (simp add: one_audit_record_def)
qed

lemma updateEntity_audit:
  assumes a: "updateEntity rt s i data userId d = (Inr updated, d')"
    and f: "fst (repo_findById rt (repository_of s) i d) = Inr (Some existing)"
  shows "if calculateChanges rt existing updated = [] then no_audit_record d d'
         else one_audit_record d d' ''update'' userId"
proof -
  obtain v where p: "rt_parse rt (UpdateSchema (repository_of s)) data = Inr v"
    using a by (auto simp: updateEntity_def split: sum.splits)
  obtain d1 where f1: "repo_findById rt (repository_of s) i d = (Inr (Some existing), d1)"
    using f by (cases "repo_findById rt (repository_of s) i d") simp
  define chk where
    "chk = (if has_custom_fields s then checkCustomFields rt s v d1 else (Inr (), d1))"
  obtain ok d2 where c: "chk = (Inr ok, d2)"
    using a p f1 by (cases chk) (auto simp: updateEntity_def chk_def split: sum.splits)
  obtain updated' d3 where
    r: "repo_update rt (repository_of s) i v userId d2 = (Inr updated', d3)"
    using a p f1 c
    by (cases "repo_update rt (repository_of s) i v userId d2")
       (auto simp: updateEntity_def chk_def split: sum.splits)
  obtain u where
    l: "logUpdate rt (entity_type_of s) (JStr i) userId existing updated' d3 = (Inr u, d')"
    and same: "updated' = updated"
    using a p f1 c r
    by (cases "logUpdate rt (entity_type_of s) (JStr i) userId existing updated' d3")
       (auto simp: updateEntity_def chk_def split: sum.splits)
  have 1: "audit_rows d1 = audit_rows d" using f1 by (rule repo_findById_audit)
  have 2: "audit_rows d2 = audit_rows d1"
    using c by (auto simp: chk_def dest: checkCustomFields_audit split: if_splits)
  have 3: "audit_rows d3 = audit_rows d2" using r by (rule repo_update_audit)
  have "if calculateChanges rt existing updated = [] then no_audit_record d3 d'
        else one_audit_record d3 d' ''update'' userId"
    using logUpdate_audit[OF l] same by simp
  then show ?thesis
    using 1 2 3 by (auto simp: one_audit_record_def no_audit_record_def split: if_splits)
qed

lemma createCustomFieldDefinition_audit:
  "no_audit_record d (snd (createCustomFieldDefinition rt data userId d))"
proof (cases "rt_parse rt (CreateSchema CustomFieldDefinitionRepository) data")
  case (Inl e)
  then show ?thesis
    by (simp add: createCustomFieldDefinition_def no_audit_record_def)
next
  case (Inr v)
  have "audit_rows (snd (repo_create rt CustomFieldDefinitionRepository v userId d)) =
      audit_rows d"
    by (rule repo_create_audit[OF prod.collapse[symmetric]])
  with Inr show ?thesis
    by (simp add: createCustomFieldDefinition_def no_audit_record_def)
qed

lemma updateCustomFieldDefinition_audit:
  "no_audit_record d (snd (updateCustomFieldDefinition rt i data userId d))"
proof (cases "repo_findById rt CustomFieldDefinitionRepository i d")
  case (Pair r1 d1)
  then have 1: "audit_rows d1 = audit_rows d" by (rule repo_findById_audit)
  have 2: "audit_rows (snd (repo_update rt CustomFieldDefinitionRepository i data userId d1)) =
      audit_rows d1"
    by (rule repo_update_audit[OF prod.collapse[symmetric]])
  show ?thesis
    using Pair 1 2
    by (auto simp: updateCustomFieldDefinition_def no_audit_record_def
          split: sum.splits option.splits)
qed

lemma deleteCustomFieldDefinition_audit:
  "no_audit_record d (snd (deleteCustomFieldDefinition rt i userId d))"
proof (cases "repo_findById rt CustomFieldDefinitionRepository i d")
  case (Pair r1 d1)
  then have 1: "audit_rows d1 = audit_rows d" by (rule repo_findById_audit)
  have 2: "audit_rows (snd (repo_delete rt CustomFieldDefinitionRepository i userId d1)) =
      audit_rows d1"
    by (rule repo_delete_audit[OF prod.collapse[symmetric]])
  show ?thesis
    using Pair 1 2
    by (auto simp: deleteCustomFieldDefinition_def no_audit_record_def
          split: sum.splits option.splits)
qed

text \<open>
  Claim C2, as the code has it. A create or delete call of the five entity services that
  succeeds leaves exactly one new audit record, with the action of the call and the
  acting user. An update call that succeeds leaves exactly one new record, with action
  \<open>update\<close> and the acting user, when the diff between the entity found and the entity
  updated is not empty, and none when it is empty. The custom field service writes no
  audit record in \<^verbatim>\<open>create\<close>, \<^verbatim>\<open>update\<close> or \<^verbatim>\<open>delete\<close>, whatever the outcome.
\<close>

theorem service_mutations_and_audit_records:
  "(\<forall>entity d'. createEntity rt s data userId d = (Inr entity, d') \<longrightarrow>
      one_audit_record d d' ''create'' userId) \<and>
   (\<forall>d'. deleteEntity rt s i userId d = (Inr (), d') \<longrightarrow>
      one_audit_record d d' ''delete'' userId) \<and>
   (\<forall>updated d' existing.
      updateEntity rt s i data userId d = (Inr updated, d') \<and>
      fst (repo_findById rt (repository_of s) i d) = Inr (Some existing) \<longrightarrow>
      (if calculateChanges rt existing updated = [] then no_audit_record d d'
       else one_audit_record d d' ''update'' userId)) \<and>
   no_audit_record d (snd (createCustomFieldDefinition rt data userId d)) \<and>
   no_audit_record d (snd (updateCustomFieldDefinition rt i data userId d)) \<and>
   no_audit_record d (snd (deleteCustomFieldDefinition rt i userId d))"
  using createEntity_audit[of rt s data userId d] deleteEntity_audit[of rt s i userId d]
    updateEntity_audit[of rt s i data userId d]
    createCustomFieldDefinition_audit[of d rt data userId]
    updateCustomFieldDefinition_audit[of d rt i data userId]
    deleteCustomFieldDefinition_audit[of d rt i userId]
  by blast

text \<open>
  Instances on the sample stores: creating a note, renaming the company \<open>c1\<close>, updating
  it with an empty delta, and deleting it.
\<close>

lemmas service_eval =
  createEntity_def updateEntity_def deleteEntity_def sample_rt_def accept_all_def
  has_custom_fields_def repository_of_def entity_type_of_def entityName_def tableName_def
  repo_create_def repo_findById_def repo_update_def repo_delete_def
  sql_insert_def sql_select_by_id_def sql_update_by_id_def sql_delete_by_id_def
  take_fault_def empty_db_def acme_db_def acme_tables_def acme_row_def no_rows_def
  logCreate_def logUpdate_def logDelete_def createAuditLog_def
  checkCustomFields_def update_columns_def update_stamp_def recognized_def insert_values_def
  apply_sets_def pg_param_def has_id_def get_prop_def mapRow_def date_of_def js_or_def
  simpleDate_def sample_stringify_def calculateChanges_def new_Set_def set_add_def
  Object_keys_def metadata_fields_def generated_columns_def Let_def

theorem service_mutations_and_audit_records_witness:
  "one_audit_record empty_db
     (snd (createEntity sample_rt NoteService note_input ''ann'' empty_db)) ''create'' ''ann'' \<and>
   one_audit_record acme_db
     (snd (updateEntity sample_rt CompanyService ''c1'' [(''name'', JStr ''Acme Inc'')] ''bob''
             acme_db)) ''update'' ''bob'' \<and>
   no_audit_record acme_db
     (snd (updateEntity sample_rt CompanyService ''c1'' [] ''bob'' acme_db)) \<and>
   one_audit_record acme_db
     (snd (deleteEntity sample_rt CompanyService ''c1'' ''bob'' acme_db)) ''delete'' ''bob''"
proof -
  let ?create = "createEntity sample_rt NoteService note_input ''ann'' empty_db"
  let ?rename = "updateEntity sample_rt CompanyService ''c1'' [(''name'', JStr ''Acme Inc'')]
                   ''bob'' acme_db"
  let ?touch = "updateEntity sample_rt CompanyService ''c1'' [] ''bob'' acme_db"
  let ?delete = "deleteEntity sample_rt CompanyService ''c1'' ''bob'' acme_db"
  let ?stored = "mapRow sample_rt CompanyRepository acme_row"
  let ?renamed = "[(''id'', JStr ''c1''), (''name'', JStr ''Acme Inc''), (''address'', JNull),
       (''customFields'', JObj []), (''createdAt'', JDate (Finite 1)),
       (''updatedAt'', JDate (Finite 5)), (''createdBy'', JStr ''ann''),
       (''updatedBy'', JStr ''bob'')]"
  have "\<not> isl (fst ?create)"
    by (simp add: service_eval)
  then obtain entity where c: "?create = (Inr entity, snd ?create)"
    by (cases ?create; cases "fst ?create") auto
  have found: "fst (repo_findById sample_rt (repository_of CompanyService) ''c1'' acme_db) =
      Inr (Some ?stored)"
    by (simp add: service_eval)
  have "fst ?rename = Inr ?renamed"
    by (simp add: service_eval)
  then have r: "?rename = (Inr ?renamed, snd ?rename)"
    by (cases ?rename) simp
  have changed: "calculateChanges sample_rt ?stored ?renamed \<noteq> []"
    by (simp add: service_eval)
  have "fst ?touch = Inr ?stored"
    by (simp add: service_eval)
  then have t: "?touch = (Inr ?stored, snd ?touch)"
    by (cases ?touch) simp
  have unchanged: "calculateChanges sample_rt ?stored ?stored = []"
    by (simp add: service_eval)
  have "\<not> isl (fst ?delete)"
    by (simp add: service_eval)
  then have dl: "?delete = (Inr (), snd ?delete)"
    by (cases ?delete; cases "fst ?delete") auto
  have 1: "one_audit_record empty_db (snd ?create) ''create'' ''ann''"
    using service_mutations_and_audit_records[of sample_rt NoteService note_input "''ann''"
            empty_db] c
    by blast
  have 2: "one_audit_record acme_db (snd ?rename) ''update'' ''bob''"
    using service_mutations_and_audit_records[of sample_rt CompanyService
            "[(''name'', JStr ''Acme Inc'')]" "''bob''" acme_db "''c1''"] r found changed
    by (metis (no_types, lifting))
  have 3: "no_audit_record acme_db (snd ?touch)"
    using service_mutations_and_audit_records[of sample_rt CompanyService "[]" "''bob''"
            acme_db "''c1''"] t found unchanged
    by (metis (no_types, lifting))
  have 4: "one_audit_record acme_db (snd ?delete) ''delete'' ''bob''"
    using service_mutations_and_audit_records[of sample_rt CompanyService _ "''bob''" acme_db
            "''c1''"] dl
    by blast
  show ?thesis using 1 2 3 4 by simp
qed

text \<open>
  Claim C2 as the specification words it, for every service including the custom field
  service, fails: defining the field \<open>industry\<close> through \<^verbatim>\<open>createCustomFieldDefinition\<close>
  on an empty store succeeds and leaves the audit trail empty.
\<close>

theorem createCustomFieldDefinition_writes_no_audit_record:
  "\<not> isl (fst (createCustomFieldDefinition sample_rt industry_input ''admin'' empty_db)) \<and>
   audit_rows (snd (createCustomFieldDefinition sample_rt industry_input ''admin'' empty_db)) = []"
  by (simp add: createCustomFieldDefinition_def sample_rt_def accept_all_def repo_create_def
        sql_insert_def take_fault_def empty_db_def no_rows_def audit_rows_def tableName_def
        Let_def)

end
